theory Spec2Isabelle
  imports Complex_Main "HOL-Library.Product_Lexorder"
begin

section \<open>JavaScript strings\<close>

text \<open>
  A JavaScript string is a sequence of UTF-16 code units; \<open>length\<close>, \<open>slice\<close>,
  \<open>lastIndexOf\<close>, \<open>includes\<close> and \<open>split\<close> all count and compare code units. A code
  unit is modelled by its numeric value, and \<open>js\<close> turns an ASCII literal into the
  string of its code units.
\<close>

type_synonym jsstring = "nat list"

definition js :: "string \<Rightarrow> jsstring" where
  "js s = map of_char s"

text \<open>
  The characters the \<open>\s\<close> class of a regular expression matches and \<open>trim\<close> strips:
  tab, line feed, vertical tab, form feed, carriage return, space, no-break space,
  U+1680, U+2000 to U+200A, U+2028, U+2029, U+202F, U+205F, U+3000 and U+FEFF.
\<close>

definition isWhiteSpace :: "nat \<Rightarrow> bool" where
  "isWhiteSpace c \<longleftrightarrow>
     (9 \<le> c \<and> c \<le> 13) \<or> c = 32 \<or> c = 160 \<or> c = 5760 \<or> (8192 \<le> c \<and> c \<le> 8202) \<or>
     c = 8232 \<or> c = 8233 \<or> c = 8239 \<or> c = 8287 \<or> c = 12288 \<or> c = 65279"

definition trim :: "jsstring \<Rightarrow> jsstring" where
  "trim s = rev (dropWhile isWhiteSpace (rev (dropWhile isWhiteSpace s)))"

text \<open>
  \<open>s.slice(start, end)\<close>: a negative index counts from the end of the string, every index
  is clamped to the string, and the result is empty when the bounds cross.
\<close>

definition sliceIndex :: "nat \<Rightarrow> int \<Rightarrow> nat" where
  "sliceIndex len i = (if i < 0 then nat (max (int len + i) 0) else min (nat i) len)"

definition slice :: "jsstring \<Rightarrow> int \<Rightarrow> int \<Rightarrow> jsstring" where
  "slice s start end =
     (let from = sliceIndex (length s) start; to = sliceIndex (length s) end
      in take (to - from) (drop from s))"

text \<open>
  \<open>s.lastIndexOf(search, position)\<close>: the greatest index, at most the position (clamped
  below at 0), at which \<open>search\<close> occurs in \<open>s\<close>; \<open>-1\<close> when there is none.
\<close>

definition occursAt :: "jsstring \<Rightarrow> jsstring \<Rightarrow> nat \<Rightarrow> bool" where
  "occursAt s search i \<longleftrightarrow> i + length search \<le> length s \<and> take (length search) (drop i s) = search"

definition lastIndexOf :: "jsstring \<Rightarrow> jsstring \<Rightarrow> int \<Rightarrow> int" where
  "lastIndexOf s search position =
     (case filter (occursAt s search) (rev [0 ..< Suc (nat (max position 0))]) of
        [] \<Rightarrow> - 1
      | i # _ \<Rightarrow> int i)"

text \<open>\<open>s.includes(search)\<close>: \<open>search\<close> occurs somewhere in \<open>s\<close>.\<close>

definition includes_str :: "jsstring \<Rightarrow> jsstring \<Rightarrow> bool" where
  "includes_str s search = list_ex (occursAt s search) [0 ..< Suc (length s)]"

section \<open>JavaScript numbers\<close>

text \<open>
  A JavaScript number is an IEEE 754 double: a finite number \<open>Finite s m e\<close> is
  \<open>(-1)^s * m * 2^e\<close>, with either \<open>2^52 \<le> m < 2^53\<close> and \<open>-1074 \<le> e \<le> 971\<close> (normal) or
  \<open>m < 2^52\<close> and \<open>e = -1074\<close> (subnormal, and the two zeros); the other numbers are the two
  infinities and \<open>NaN\<close>.
\<close>

datatype double = Finite bool nat int | Infinity bool | NaN

text \<open>The number of binary digits of a natural number.\<close>

fun bitLength :: "nat \<Rightarrow> nat" where
  "bitLength n = (if n = 0 then 0 else 1 + bitLength (n div 2))"

declare bitLength.simps [simp del]

text \<open>
  The integer part of the binary logarithm of \<open>num / den\<close> (both positive): with \<open>k\<close> the
  difference of the bit lengths, the quotient lies strictly between \<open>2^(k-1)\<close> and
  \<open>2^(k+1)\<close>.
\<close>

definition floorLog2 :: "nat \<Rightarrow> nat \<Rightarrow> int" where
  "floorLog2 num den =
     (if den * 2 ^ (bitLength num - bitLength den) \<le> num * 2 ^ (bitLength den - bitLength num)
      then int (bitLength num) - int (bitLength den)
      else int (bitLength num) - int (bitLength den) - 1)"

text \<open>The integer nearest to \<open>n / d\<close>, the even one of two that are equally near.\<close>

definition divideRound :: "nat \<Rightarrow> nat \<Rightarrow> nat" where
  "divideRound n d =
     (if d < 2 * (n mod d) \<or> (2 * (n mod d) = d \<and> odd (n div d)) then n div d + 1
      else n div d)"

text \<open>
  The number \<open>(-1)^s * m * 2^e\<close> for a mantissa \<open>m \<le> 2^53\<close> that rounding has produced: a
  mantissa rounded up to \<open>2^53\<close> moves to the next exponent, and a number beyond the
  largest double is an infinity.
\<close>

definition normalise :: "bool \<Rightarrow> nat \<Rightarrow> int \<Rightarrow> double" where
  "normalise s m e =
     (if m = 2 ^ 53 then (if 970 < e then Infinity s else Finite s (2 ^ 52) (e + 1))
      else if 971 < e then Infinity s
      else Finite s m e)"

text \<open>
  The double nearest to the rational \<open>(-1)^s * num / den\<close>, ties to the even mantissa, as
  IEEE 754 rounds the exact result of an operation and as JavaScript reads a decimal
  literal: \<open>roundAt\<close> rounds the quotient to a multiple of \<open>2^e\<close>, and \<open>roundRatio\<close> takes for
  \<open>e\<close> the exponent that leaves 53 binary digits, or the least exponent of a double.
\<close>

definition roundAt :: "bool \<Rightarrow> nat \<Rightarrow> nat \<Rightarrow> int \<Rightarrow> double" where
  "roundAt s num den e = normalise s (divideRound (num * 2 ^ nat (- e)) (den * 2 ^ nat e)) e"

definition roundRatio :: "bool \<Rightarrow> nat \<Rightarrow> nat \<Rightarrow> double" where
  "roundRatio s num den =
     (if num = 0 then Finite s 0 (- 1074)
      else roundAt s num den (max (floorLog2 num den - 52) (- 1074)))"

text \<open>
  The product \<open>x * y\<close>: the exact product of two finite numbers, rounded; an infinity
  times zero, and every product with \<open>NaN\<close>, is \<open>NaN\<close>.
\<close>

fun multiply :: "double \<Rightarrow> double \<Rightarrow> double" where
  "multiply (Finite s1 m1 e1) (Finite s2 m2 e2) =
     roundRatio (s1 \<noteq> s2) (m1 * m2 * 2 ^ nat (e1 + e2)) (2 ^ nat (- (e1 + e2)))"
| "multiply (Finite s1 m1 e1) (Infinity s2) = (if m1 = 0 then NaN else Infinity (s1 \<noteq> s2))"
| "multiply (Infinity s1) (Finite s2 m2 e2) = (if m2 = 0 then NaN else Infinity (s1 \<noteq> s2))"
| "multiply (Infinity s1) (Infinity s2) = Infinity (s1 \<noteq> s2)"
| "multiply NaN y = NaN"
| "multiply x NaN = NaN"

text \<open>
  The number a decimal literal of the source denotes: \<open>decimalLiteral digits places\<close> is
  the literal whose digits are \<open>digits\<close>, the last \<open>places\<close> of them after the point.
  \<open>Math.PI\<close> is the double nearest to pi, \<open>0x1.921fb54442d18p+1\<close>.
\<close>

definition decimalLiteral :: "nat \<Rightarrow> nat \<Rightarrow> double" where
  "decimalLiteral digits places = roundRatio False digits (10 ^ places)"

definition Math_PI :: double where
  "Math_PI = Finite False 7074237752028440 (- 51)"

text \<open>The real number a finite double is.\<close>

definition finiteValue :: "double \<Rightarrow> real option" where
  "finiteValue x =
     (case x of
        Finite s m e \<Rightarrow>
          Some ((if s then - 1 else 1) * real m * (if 0 \<le> e then 2 ^ nat e else 1 / 2 ^ nat (- e)))
      | Infinity s \<Rightarrow> None
      | NaN \<Rightarrow> None)"

text \<open>A number is falsy in a condition when it is a zero or \<open>NaN\<close>.\<close>

definition truthyDouble :: "double \<Rightarrow> bool" where
  "truthyDouble x = (case x of Finite s m e \<Rightarrow> m \<noteq> 0 | Infinity s \<Rightarrow> True | NaN \<Rightarrow> False)"

section \<open>What the JavaScript runtime provides\<close>

text \<open>
  A call either returns a value, or throws, or never returns.
\<close>

datatype exn = TypeError | SyntaxError | OtherError

datatype 'a outcome = Returns 'a | Throws exn | Diverges

text \<open>
  The operations of the runtime that the code calls on strings and on values of an
  unknown type have no source in the repository; they are gathered in a record and
  passed to the functions that call them:
  \<^item> \<open>numberToString\<close>: the text of a number in a template literal and in \<open>String(n)\<close>;
  \<^item> \<open>toFixed4\<close>: \<open>n.toFixed(4)\<close>;
  \<^item> \<open>toLowerCase\<close>: \<open>s.toLowerCase()\<close>;
  \<^item> \<open>regexReplace s key r\<close>: \<open>s.replace(new RegExp(key, 'g'), r)\<close>, \<open>None\<close> when the
    constructor rejects the pattern;
  \<^item> \<open>evalFunction src\<close>: \<open>Function(src)()\<close>, which compiles \<open>src\<close> as the body of a
    function and runs it: the run returns a value, throws, or does not end;
  \<^item> \<open>otherToString v\<close>: the text of a value that is not a number in a template
    literal: the conversion may run a \<open>toString\<close> of the value, so it returns a string,
    throws, or does not end.
\<close>

typedecl jsval

datatype calc_value = NumberValue double | OtherValue jsval

record platform =
  numberToString :: "double \<Rightarrow> jsstring"
  toFixed4 :: "double \<Rightarrow> jsstring"
  toLowerCase :: "jsstring \<Rightarrow> jsstring"
  regexReplace :: "jsstring \<Rightarrow> jsstring \<Rightarrow> jsstring \<Rightarrow> jsstring option"
  evalFunction :: "jsstring \<Rightarrow> calc_value outcome"
  otherToString :: "jsval \<Rightarrow> jsstring outcome"

text \<open>A value interpolated into a template literal; \<open>undefined\<close> reads \<open>undefined\<close>.\<close>

definition interpolate :: "jsstring option \<Rightarrow> jsstring" where
  "interpolate s = (case s of None \<Rightarrow> js ''undefined'' | Some t \<Rightarrow> t)"

text \<open>The truth value of an optional string and of an optional number in a condition.\<close>

definition truthyString :: "jsstring option \<Rightarrow> bool" where
  "truthyString s = (case s of None \<Rightarrow> False | Some t \<Rightarrow> t \<noteq> [])"

definition truthyNumber :: "double option \<Rightarrow> bool" where
  "truthyNumber x = (case x of None \<Rightarrow> False | Some v \<Rightarrow> truthyDouble v)"

section \<open>The chunker (server/documentProcessor.ts)\<close>

definition CHUNK_SIZE :: int where
  "CHUNK_SIZE = 2000"

definition CHUNK_OVERLAP :: int where
  "CHUNK_OVERLAP = 200"

definition breakPoints :: "jsstring list" where
  "breakPoints = [[10, 10], [46, 10], [46, 32], [10]]"

text \<open>
  The inner \<open>for\<close> loop over the break points, left at the first break point whose last
  occurrence lies after the middle of the window. The source compares
  \<open>lastBreak > start + chunkSize / 2\<close> on numbers; on integers that is
  \<open>2 * lastBreak > 2 * start + chunkSize\<close>.
\<close>

fun findBreak :: "jsstring \<Rightarrow> int \<Rightarrow> int \<Rightarrow> int \<Rightarrow> jsstring list \<Rightarrow> int" where
  "findBreak text start chunkSize end [] = end"
| "findBreak text start chunkSize end (bp # bps) =
     (let lastBreak = lastIndexOf text bp end
      in if 2 * lastBreak > 2 * start + chunkSize then lastBreak + int (length bp)
         else findBreak text start chunkSize end bps)"

text \<open>The end of the window that starts at \<open>start\<close>.\<close>

definition windowEnd :: "jsstring \<Rightarrow> int \<Rightarrow> int \<Rightarrow> int" where
  "windowEnd text chunkSize start =
     (let end = start + chunkSize
      in if end < int (length text) then findBreak text start chunkSize end breakPoints else end)"

text \<open>
  The \<open>while\<close> loop. Nothing in the loop bounds the number of iterations, so the loop is
  a partial function: \<open>None\<close> is a run that never leaves the loop.
\<close>

partial_function (option) splitLoop ::
  "jsstring \<Rightarrow> int \<Rightarrow> int \<Rightarrow> int \<Rightarrow> jsstring list \<Rightarrow> jsstring list option" where
  "splitLoop text chunkSize overlap start chunks =
     (if start < int (length text)
      then let end = windowEnd text chunkSize start
           in splitLoop text chunkSize overlap (end - overlap)
                (chunks @ [trim (slice text start end)])
      else Some chunks)"

declare splitLoop.simps [code]

definition splitIntoChunks :: "jsstring \<Rightarrow> int \<Rightarrow> int \<Rightarrow> jsstring list option" where
  "splitIntoChunks text chunkSize overlap =
     map_option (filter (\<lambda>c. length c > 50)) (splitLoop text chunkSize overlap 0 [])"

text \<open>
  A trimmed window slice: what the loop pushes for a window that starts inside the text.
\<close>

definition isWindow :: "jsstring \<Rightarrow> int \<Rightarrow> jsstring \<Rightarrow> bool" where
  "isWindow text chunkSize c \<longleftrightarrow>
     (\<exists>start. start < int (length text) \<and>
        c = trim (slice text start (windowEnd text chunkSize start)))"

section \<open>The calculation engine (executeCalculation)\<close>

text \<open>
  The arguments of a tool call after \<open>JSON.parse\<close>: an object whose properties, when
  present, have the types the tool schemas declare. A property that is absent reads
  \<open>undefined\<close>, here \<open>None\<close>. The property \<open>values\<close> is the field \<open>values'\<close>: an object with
  numeric properties, given by the list of its entries in the order \<open>Object.entries\<close>
  enumerates them.
\<close>

record tool_input =
  query :: "jsstring option"
  document_types :: "jsstring list option"
  calculation_type :: "jsstring option"
  values' :: "(jsstring \<times> double) list option"
  formula :: "jsstring option"
  unit_from :: "jsstring option"
  unit_to :: "jsstring option"
  analysis_type :: "jsstring option"
  report_type :: "jsstring option"
  topics :: "jsstring list option"
  spec_type :: "jsstring option"
  attributes :: "jsstring list option"

text \<open>
  What executeCalculation returns: the object \<open>{ error }\<close>, or the object
  \<open>{ result, explanation, calculation_type, input_values }\<close>.
\<close>

datatype calc_output =
  CalcError jsstring
| CalcSuccess calc_value jsstring "jsstring option" "(jsstring \<times> double) list option"

text \<open>
  A case of the \<open>switch\<close> that completes either returns an error object at once or
  assigns \<open>result\<close> and \<open>explanation\<close>.
\<close>

datatype calc_case = ReturnError jsstring | Assigned calc_value jsstring

text \<open>
  The conversion table. A factor is written as the source writes it: \<open>decimalLiteral 3048 4\<close>
  is the literal \<open>0.3048\<close>.
\<close>

definition UNIT_CONVERSIONS :: "(jsstring \<times> (jsstring \<times> double) list) list" where
  "UNIT_CONVERSIONS =
    [(js ''length'',
       [(js ''ft_to_m'', decimalLiteral 3048 4),
        (js ''m_to_ft'', decimalLiteral 328084 5),
        (js ''in_to_cm'', decimalLiteral 254 2),
        (js ''cm_to_in'', decimalLiteral 393701 6),
        (js ''yd_to_m'', decimalLiteral 9144 4),
        (js ''m_to_yd'', decimalLiteral 109361 5)]),
     (js ''area'',
       [(js ''sqft_to_sqm'', decimalLiteral 92903 6),
        (js ''sqm_to_sqft'', decimalLiteral 107639 4),
        (js ''sqyd_to_sqm'', decimalLiteral 836127 6),
        (js ''sqm_to_sqyd'', decimalLiteral 119599 5),
        (js ''acre_to_sqm'', decimalLiteral 404686 2),
        (js ''sqm_to_acre'', decimalLiteral 247105 9)]),
     (js ''volume'',
       [(js ''cuft_to_cum'', decimalLiteral 283168 7),
        (js ''cum_to_cuft'', decimalLiteral 353147 4),
        (js ''cuyd_to_cum'', decimalLiteral 764555 6),
        (js ''cum_to_cuyd'', decimalLiteral 130795 5),
        (js ''gal_to_l'', decimalLiteral 378541 5),
        (js ''l_to_gal'', decimalLiteral 264172 6)]),
     (js ''weight'',
       [(js ''lb_to_kg'', decimalLiteral 453592 6),
        (js ''kg_to_lb'', decimalLiteral 220462 5),
        (js ''ton_to_kg'', decimalLiteral 907185 3),
        (js ''kg_to_ton'', decimalLiteral 110231 8),
        (js ''tonne_to_kg'', decimalLiteral 1000 0),
        (js ''kg_to_tonne'', decimalLiteral 1 3)])]"

text \<open>\<open>values.name\<close> on the object \<open>values\<close>.\<close>

definition numberProp :: "(jsstring \<times> double) list \<Rightarrow> string \<Rightarrow> double option" where
  "numberProp vs name = map_of vs (js name)"

text \<open>The multiplication sign, the letter pi and the superscript two of the explanations.\<close>

definition times_sign :: jsstring where
  "times_sign = [215]"

definition pi_sign :: jsstring where
  "pi_sign = [960]"

definition squared_sign :: jsstring where
  "squared_sign = [178]"

text \<open>
  The cases of the \<open>switch\<close> that multiply. A product of three factors is taken from the
  left, as JavaScript takes it: \<open>Math.PI * r * r\<close> is \<open>(Math.PI * r) * r\<close>.
\<close>

definition areaCase :: "platform \<Rightarrow> (jsstring \<times> double) list \<Rightarrow> calc_case" where
  "areaCase P vs =
     (if truthyNumber (numberProp vs ''length'') \<and> truthyNumber (numberProp vs ''width'') then
        let l = the (numberProp vs ''length''); w = the (numberProp vs ''width'');
            result = multiply l w
        in Assigned (NumberValue result)
             (js ''Area = '' @ numberToString P l @ js '' '' @ times_sign @ js '' '' @
              numberToString P w @ js '' = '' @ numberToString P result @ js '' square units'')
      else if truthyNumber (numberProp vs ''radius'') then
        let r = the (numberProp vs ''radius''); result = multiply (multiply Math_PI r) r
        in Assigned (NumberValue result)
             (js ''Area = '' @ pi_sign @ js '' '' @ times_sign @ js '' '' @ numberToString P r @
              squared_sign @ js '' = '' @ toFixed4 P result @ js '' square units'')
      else ReturnError (js ''Missing required values for area calculation (length/width or radius)''))"

definition volumeCase :: "platform \<Rightarrow> (jsstring \<times> double) list \<Rightarrow> calc_case" where
  "volumeCase P vs =
     (if truthyNumber (numberProp vs ''length'') \<and> truthyNumber (numberProp vs ''width'') \<and>
         truthyNumber (numberProp vs ''height'') then
        let l = the (numberProp vs ''length''); w = the (numberProp vs ''width''); h = the (numberProp vs ''height'');
            result = multiply (multiply l w) h
        in Assigned (NumberValue result)
             (js ''Volume = '' @ numberToString P l @ js '' '' @ times_sign @ js '' '' @
              numberToString P w @ js '' '' @ times_sign @ js '' '' @ numberToString P h @
              js '' = '' @ numberToString P result @ js '' cubic units'')
      else if truthyNumber (numberProp vs ''area'') \<and> truthyNumber (numberProp vs ''depth'') then
        let a = the (numberProp vs ''area''); d = the (numberProp vs ''depth'');
            result = multiply a d
        in Assigned (NumberValue result)
             (js ''Volume = '' @ numberToString P a @ js '' '' @ times_sign @ js '' '' @
              numberToString P d @ js '' = '' @ numberToString P result @ js '' cubic units'')
      else ReturnError (js ''Missing required values for volume calculation''))"

definition linearCase :: "platform \<Rightarrow> (jsstring \<times> double) list \<Rightarrow> calc_case" where
  "linearCase P vs =
     (if truthyNumber (numberProp vs ''quantity'') \<and> truthyNumber (numberProp vs ''unit_length'') then
        let q = the (numberProp vs ''quantity''); u = the (numberProp vs ''unit_length'');
            result = multiply q u
        in Assigned (NumberValue result)
             (js ''Total length = '' @ numberToString P q @ js '' '' @ times_sign @ js '' '' @
              numberToString P u @ js '' = '' @ numberToString P result @ js '' linear units'')
      else ReturnError (js ''Missing required values for linear calculation''))"

definition weightCase :: "platform \<Rightarrow> (jsstring \<times> double) list \<Rightarrow> calc_case" where
  "weightCase P vs =
     (if truthyNumber (numberProp vs ''volume'') \<and> truthyNumber (numberProp vs ''density'') then
        let v = the (numberProp vs ''volume''); d = the (numberProp vs ''density'');
            result = multiply v d
        in Assigned (NumberValue result)
             (js ''Weight = '' @ numberToString P v @ js '' '' @ times_sign @ js '' '' @
              numberToString P d @ js '' = '' @ numberToString P result @ js '' weight units'')
      else if truthyNumber (numberProp vs ''quantity'') \<and> truthyNumber (numberProp vs ''unit_weight'') then
        let q = the (numberProp vs ''quantity''); u = the (numberProp vs ''unit_weight'');
            result = multiply q u
        in Assigned (NumberValue result)
             (js ''Total weight = '' @ numberToString P q @ js '' '' @ times_sign @ js '' '' @
              numberToString P u @ js '' = '' @ numberToString P result @ js '' weight units'')
      else ReturnError (js ''Missing required values for weight calculation''))"

text \<open>
  The loop over \<open>Object.values(UNIT_CONVERSIONS)\<close>: the categories in the order they are
  written, left at the first one whose entry for the key is truthy.
\<close>

fun findFactor :: "(jsstring \<times> (jsstring \<times> double) list) list \<Rightarrow> jsstring \<Rightarrow> double option"
  where
  "findFactor [] conversionKey = None"
| "findFactor ((name, category) # rest) conversionKey =
     (if truthyNumber (map_of category conversionKey) then map_of category conversionKey
      else findFactor rest conversionKey)"

definition conversionCase ::
  "platform \<Rightarrow> (jsstring \<times> double) list \<Rightarrow> jsstring \<Rightarrow> jsstring \<Rightarrow> double \<Rightarrow> calc_case"
  where
  "conversionCase P vs from to v =
     (let conversionKey = from @ js ''_to_'' @ to;
          factor = findFactor UNIT_CONVERSIONS conversionKey
      in if truthyNumber factor then
           let result = multiply v (the factor)
           in Assigned (NumberValue result)
                (numberToString P v @ js '' '' @ from @ js '' = '' @ toFixed4 P result @
                 js '' '' @ to)
         else ReturnError (js ''Conversion from '' @ from @ js '' to '' @ to @ js '' not supported''))"

text \<open>
  The body of the \<open>try\<close> of the custom case: the substitution of every entry of \<open>values\<close>
  into the formula, the evaluation, and the explanation. \<open>Object.entries\<close> of an
  \<open>undefined\<close> \<open>values\<close> throws, as the constructor of a regular expression may.
\<close>

fun substituteValues ::
  "platform \<Rightarrow> (jsstring \<times> double) list \<Rightarrow> jsstring \<Rightarrow> jsstring option" where
  "substituteValues P [] evalFormula = Some evalFormula"
| "substituteValues P ((key, val) # entries) evalFormula =
     (case regexReplace P evalFormula key (numberToString P val) of
        None \<Rightarrow> None
      | Some replaced \<Rightarrow> substituteValues P entries replaced)"

definition resultToString :: "platform \<Rightarrow> calc_value \<Rightarrow> jsstring outcome" where
  "resultToString P v =
     (case v of NumberValue x \<Rightarrow> Returns (numberToString P x) | OtherValue w \<Rightarrow> otherToString P w)"

definition functionSource :: "jsstring \<Rightarrow> jsstring" where
  "functionSource evalFormula =
     [34] @ js ''use strict'' @ [34] @ js ''; return ('' @ evalFormula @ js '')''"

definition customTry ::
  "platform \<Rightarrow> (jsstring \<times> double) list option \<Rightarrow> jsstring \<Rightarrow>
   (calc_value \<times> jsstring) outcome" where
  "customTry P vals f =
     (case vals of
        None \<Rightarrow> Throws TypeError
      | Some vs \<Rightarrow>
          (case substituteValues P vs f of
             None \<Rightarrow> Throws SyntaxError
           | Some evalFormula \<Rightarrow>
               (case evalFunction P (functionSource evalFormula) of
                  Throws e \<Rightarrow> Throws e
                | Diverges \<Rightarrow> Diverges
                | Returns result \<Rightarrow>
                    (case resultToString P result of
                       Throws e \<Rightarrow> Throws e
                     | Diverges \<Rightarrow> Diverges
                     | Returns shown \<Rightarrow>
                         Returns (result, js ''Custom calculation: '' @ f @ js '' = '' @ shown)))))"

text \<open>The custom case: the \<open>catch\<close> turns every exception of the body into an error object.\<close>

definition customCase ::
  "platform \<Rightarrow> (jsstring \<times> double) list option \<Rightarrow> jsstring option \<Rightarrow> calc_case outcome"
  where
  "customCase P vals f =
     (if truthyString f then
        (case customTry P vals (the f) of
           Returns (result, explanation) \<Rightarrow> Returns (Assigned result explanation)
         | Throws e \<Rightarrow> Returns (ReturnError (js ''Invalid formula or values''))
         | Diverges \<Rightarrow> Diverges)
      else Returns (ReturnError (js ''Custom calculation requires a formula'')))"

text \<open>The cases that read a property of \<open>values\<close> first: an \<open>undefined\<close> \<open>values\<close> throws.\<close>

definition withValues ::
  "(jsstring \<times> double) list option \<Rightarrow> ((jsstring \<times> double) list \<Rightarrow> calc_case) \<Rightarrow>
   calc_case outcome" where
  "withValues vals f = (case vals of None \<Rightarrow> Throws TypeError | Some vs \<Rightarrow> Returns (f vs))"

definition switchCase :: "platform \<Rightarrow> tool_input \<Rightarrow> calc_case outcome" where
  "switchCase P input =
     (if calculation_type input = Some (js ''area'') then withValues (values' input) (areaCase P)
      else if calculation_type input = Some (js ''volume'') then
        withValues (values' input) (volumeCase P)
      else if calculation_type input = Some (js ''linear'') then
        withValues (values' input) (linearCase P)
      else if calculation_type input = Some (js ''weight'') then
        withValues (values' input) (weightCase P)
      else if calculation_type input = Some (js ''conversion'') then
        (if truthyString (unit_from input) \<and> truthyString (unit_to input) then
           (case values' input of
              None \<Rightarrow> Throws TypeError
            | Some vs \<Rightarrow>
                (case numberProp vs ''value'' of
                   Some v \<Rightarrow>
                     Returns (conversionCase P vs (the (unit_from input)) (the (unit_to input)) v)
                 | None \<Rightarrow>
                     Returns (ReturnError
                       (js ''Missing required values for conversion (value, unit_from, unit_to)''))))
         else Returns (ReturnError
                (js ''Missing required values for conversion (value, unit_from, unit_to)'')))
      else if calculation_type input = Some (js ''custom'') then
        customCase P (values' input) (formula input)
      else Returns (ReturnError
             (js ''Unknown calculation type: '' @ interpolate (calculation_type input))))"

definition executeCalculation :: "platform \<Rightarrow> tool_input \<Rightarrow> calc_output outcome" where
  "executeCalculation P input =
     (case switchCase P input of
        Throws e \<Rightarrow> Throws e
      | Diverges \<Rightarrow> Diverges
      | Returns (ReturnError msg) \<Rightarrow> Returns (CalcError msg)
      | Returns (Assigned result explanation) \<Rightarrow>
          Returns (CalcSuccess result explanation (calculation_type input) (values' input)))"

text \<open>
  The conversion table as the specification reads it: the first category, in the order
  length, area, volume, weight, that contains the key gives the factor; a key may be in
  no category. A table is \<open>factorsTruthy\<close> when no entry is a zero or \<open>NaN\<close>, so that an entry
  is truthy exactly when it is present.
\<close>

definition firstCategoryWith ::
  "(jsstring \<times> (jsstring \<times> double) list) list \<Rightarrow> jsstring \<Rightarrow> double \<Rightarrow> bool" where
  "firstCategoryWith table key factor \<longleftrightarrow>
     (\<exists>before name category rest.
        table = before @ (name, category) # rest \<and>
        (\<forall>(n, c) \<in> set before. map_of c key = None) \<and>
        map_of category key = Some factor)"

definition inNoCategory :: "(jsstring \<times> (jsstring \<times> double) list) list \<Rightarrow> jsstring \<Rightarrow> bool" where
  "inNoCategory table key \<longleftrightarrow> (\<forall>(n, c) \<in> set table. map_of c key = None)"

definition factorsTruthy :: "(jsstring \<times> (jsstring \<times> double) list) list \<Rightarrow> bool" where
  "factorsTruthy table \<longleftrightarrow> (\<forall>(n, c) \<in> set table. \<forall>(k, f) \<in> set c. truthyDouble f)"

text \<open>
  The inputs on which a calculation does not end: a custom calculation with a formula
  that is not empty and a \<open>values\<close> object every key of which the constructor of regular
  expressions accepts, where the evaluation of the formula after the substitutions does
  not end, or ends with a value whose conversion to text, for the explanation, does not
  end.
\<close>

definition formulaDiverges :: "platform \<Rightarrow> tool_input \<Rightarrow> bool" where
  "formulaDiverges P input \<longleftrightarrow>
     calculation_type input = Some (js ''custom'') \<and> truthyString (formula input) \<and>
     (case values' input of
        None \<Rightarrow> False
      | Some vs \<Rightarrow>
          (case substituteValues P vs (the (formula input)) of
             None \<Rightarrow> False
           | Some evalFormula \<Rightarrow>
               (case evalFunction P (functionSource evalFormula) of
                  Diverges \<Rightarrow> True
                | Throws e \<Rightarrow> False
                | Returns (NumberValue x) \<Rightarrow> False
                | Returns (OtherValue w) \<Rightarrow> otherToString P w = Diverges)))"

section \<open>A runtime for the examples\<close>

text \<open>
  The decimal digits of a natural number: the text JavaScript gives an integer that is
  not negative (below \<open>10^21\<close>), as a document id is.
\<close>

fun decimal :: "nat \<Rightarrow> jsstring" where
  "decimal n = (if n < 10 then [48 + n] else decimal (n div 10) @ [48 + n mod 10])"

declare decimal.simps [simp del]

text \<open>
  The integer part of a number that is not negative, and the number of ten-thousandths
  nearest to it (the larger of two that are equally near, as \<open>toFixed\<close> takes it).
\<close>

definition wholePart :: "double \<Rightarrow> nat" where
  "wholePart x =
     (case x of
        Finite s m e \<Rightarrow> (if 0 \<le> e then m * 2 ^ nat e else m div 2 ^ nat (- e))
      | Infinity s \<Rightarrow> 0
      | NaN \<Rightarrow> 0)"

definition tenThousandths :: "double \<Rightarrow> nat" where
  "tenThousandths x =
     (case x of
        Finite s m e \<Rightarrow>
          (if 0 \<le> e then m * 2 ^ nat e * 10000
           else (2 * m * 10000 + 2 ^ nat (- e)) div (2 * 2 ^ nat (- e)))
      | Infinity s \<Rightarrow> 0
      | NaN \<Rightarrow> 0)"

definition fixed4 :: "double \<Rightarrow> jsstring" where
  "fixed4 x =
     decimal (tenThousandths x div 10000) @ js ''.'' @
     decimal (tenThousandths x div 1000 mod 10) @ decimal (tenThousandths x div 100 mod 10) @
     decimal (tenThousandths x div 10 mod 10) @ decimal (tenThousandths x mod 10)"

text \<open>
  The properties below hold for every runtime. The examples are evaluated in this one,
  which is right on what they use: it prints natural numbers, and with \<open>toFixed(4)\<close>
  finite numbers that are not negative (below \<open>10^21\<close>); it lower-cases ASCII text,
  replaces \<open>a\<close> by \<open>2\<close> in the formula \<open>a + 1\<close> and evaluates \<open>2 + 1\<close> to 3; it rejects every
  other pattern and formula.
\<close>

definition asciiLower :: "nat \<Rightarrow> nat" where
  "asciiLower c = (if 65 \<le> c \<and> c \<le> 90 then c + 32 else c)"

definition exampleRuntime :: platform where
  "exampleRuntime =
     \<lparr> numberToString = (\<lambda>x. decimal (wholePart x)),
       toFixed4 = fixed4,
       toLowerCase = map asciiLower,
       regexReplace =
         (\<lambda>s key r. if s = js ''a + 1'' \<and> key = js ''a'' \<and> r = js ''2'' then Some (js ''2 + 1'')
                    else None),
       evalFunction =
         (\<lambda>src. if src = functionSource (js ''2 + 1'') then Returns (NumberValue (decimalLiteral 3 0))
                else Throws SyntaxError),
       otherToString = (\<lambda>v. Throws TypeError) \<rparr>"

text \<open>The arguments object with no property.\<close>

definition noArguments :: tool_input where
  "noArguments =
     \<lparr> query = None, document_types = None, calculation_type = None, values' = None,
       formula = None, unit_from = None, unit_to = None, analysis_type = None,
       report_type = None, topics = None, spec_type = None, attributes = None \<rparr>"

text \<open>
  The formula \<open>(function(){for(;;){}})()\<close> calls a function whose loop has no exit: in
  the runtime below the evaluation of its source does not end.
\<close>

definition loopFormula :: jsstring where
  "loopFormula = js ''(function(){for(;;){}})()''"

definition loopingRuntime :: platform where
  "loopingRuntime =
     exampleRuntime
       \<lparr> evalFunction := (\<lambda>src. if src = functionSource loopFormula then Diverges
                                 else evalFunction exampleRuntime src) \<rparr>"

section \<open>The store (server/db.ts)\<close>

text \<open>
  The rows of the tables \<open>documents\<close> and \<open>document_chunks\<close>, with the columns the functions
  below read. A table is the list of its rows.
\<close>

record document =
  doc_id :: nat
  doc_userId :: nat
  doc_originalName :: jsstring
  doc_documentType :: jsstring
  doc_pageCount :: "nat option"
  doc_createdAt :: nat

record documentChunk =
  chunk_id :: nat
  chunk_documentId :: nat
  chunk_userId :: nat
  chunk_chunkIndex :: nat
  chunk_content :: jsstring
  chunk_pageNumber :: "nat option"
  chunk_sectionTitle :: "jsstring option"

record database =
  documents :: "document list"
  documentChunks :: "documentChunk list"

text \<open>
  \<open>getDb()\<close> gives the connection or \<open>null\<close>; every function below takes what it gives,
  \<open>None\<close> for \<open>null\<close>.

  getDocumentsByUserId: the documents of the user, newest first.
\<close>

definition getDocumentsByUserId :: "database option \<Rightarrow> nat \<Rightarrow> document list" where
  "getDocumentsByUserId db userId =
     (case db of
        None \<Rightarrow> []
      | Some d \<Rightarrow> rev (sort_key doc_createdAt (filter (\<lambda>x. doc_userId x = userId) (documents d))))"

definition getDocumentById :: "database option \<Rightarrow> nat \<Rightarrow> nat \<Rightarrow> document option" where
  "getDocumentById db ident userId =
     (case db of
        None \<Rightarrow> None
      | Some d \<Rightarrow>
          (case filter (\<lambda>x. doc_id x = ident \<and> doc_userId x = userId) (documents d) of
             [] \<Rightarrow> None
           | doc # _ \<Rightarrow> Some doc))"

text \<open>
  deleteDocument: the first \<open>delete\<close> removes the chunks whose \<open>documentId\<close> is the id; the
  second removes the documents with the id and the user id, and the function returns
  whether it removed a row. The result is the store after the call and the value
  returned.
\<close>

definition deleteDocument :: "database option \<Rightarrow> nat \<Rightarrow> nat \<Rightarrow> database option \<times> bool" where
  "deleteDocument db ident userId =
     (case db of
        None \<Rightarrow> (None, False)
      | Some d \<Rightarrow>
          let d1 = d\<lparr>documentChunks :=
                       filter (\<lambda>c. chunk_documentId c \<noteq> ident) (documentChunks d)\<rparr>;
              affectedRows =
                length (filter (\<lambda>x. doc_id x = ident \<and> doc_userId x = userId) (documents d1));
              d2 = d1\<lparr>documents :=
                        filter (\<lambda>x. \<not> (doc_id x = ident \<and> doc_userId x = userId)) (documents d1)\<rparr>
          in (Some d2, affectedRows > 0))"

text \<open>
  getChunksByUserDocuments: the chunks of the user, of the given documents when a list
  of ids that is not empty is given, ordered by document id and then by chunk index.
\<close>

definition getChunksByUserDocuments ::
  "database option \<Rightarrow> nat \<Rightarrow> nat list option \<Rightarrow> documentChunk list" where
  "getChunksByUserDocuments db userId documentIds =
     (case db of
        None \<Rightarrow> []
      | Some d \<Rightarrow>
          (if documentIds \<noteq> None \<and> the documentIds \<noteq> [] then
             sort_key (\<lambda>c. (chunk_documentId c, chunk_chunkIndex c))
               (filter (\<lambda>c. chunk_userId c = userId \<and> chunk_documentId c \<in> set (the documentIds))
                  (documentChunks d))
           else
             sort_key (\<lambda>c. (chunk_documentId c, chunk_chunkIndex c))
               (filter (\<lambda>c. chunk_userId c = userId) (documentChunks d))))"

section \<open>Retrieval search (searchDocuments)\<close>

record citation =
  documentId :: nat
  documentName :: jsstring
  pageNumber :: "nat option"
  section' :: "jsstring option"
  excerpt :: jsstring

record search_hit =
  hit_content :: jsstring
  hit_citation :: citation

text \<open>
  \<open>s.split(/\s+/)\<close>: the pieces of \<open>s\<close> between the maximal runs of white space. A run at
  the start or at the end of \<open>s\<close> leaves an empty piece there, and the empty string
  splits into one empty piece.
\<close>

function splitWhiteSpace :: "jsstring \<Rightarrow> jsstring \<Rightarrow> jsstring list" where
  "splitWhiteSpace piece [] = [piece]"
| "splitWhiteSpace piece (c # cs) =
     (if isWhiteSpace c then piece # splitWhiteSpace [] (dropWhile isWhiteSpace cs)
      else splitWhiteSpace (piece @ [c]) cs)"
  by pat_completeness auto
termination
  by (relation "measure (\<lambda>(piece, s). length s)")
     (auto simp: le_imp_less_Suc length_dropWhile_le)

definition split_ws :: "jsstring \<Rightarrow> jsstring list" where
  "split_ws s = splitWhiteSpace [] s"

text \<open>The citation of a chunk: \<open>documents\<close> are the documents of the user.\<close>

definition findDocument :: "document list \<Rightarrow> nat \<Rightarrow> document option" where
  "findDocument docs ident = find (\<lambda>d. doc_id d = ident) docs"

definition citationOf :: "document list \<Rightarrow> documentChunk \<Rightarrow> citation" where
  "citationOf docs chunk =
     \<lparr> documentId = chunk_documentId chunk,
       documentName =
         (case findDocument docs (chunk_documentId chunk) of
            None \<Rightarrow> js ''Unknown Document''
          | Some doc \<Rightarrow>
              if doc_originalName doc \<noteq> [] then doc_originalName doc else js ''Unknown Document''),
       pageNumber = chunk_pageNumber chunk,
       section' = chunk_sectionTitle chunk,
       excerpt = take 200 (chunk_content chunk) @
                 (if length (chunk_content chunk) > 200 then js ''...'' else []) \<rparr>"

definition hitOf :: "document list \<Rightarrow> documentChunk \<Rightarrow> search_hit" where
  "hitOf docs chunk = \<lparr> hit_content = chunk_content chunk, hit_citation = citationOf docs chunk \<rparr>"

text \<open>The documents that pass the filter on the document type.\<close>

definition relevantDocs :: "document list \<Rightarrow> jsstring list option \<Rightarrow> document list" where
  "relevantDocs docs documentTypes =
     (if documentTypes \<noteq> None \<and> length (the documentTypes) > 0 then
        filter (\<lambda>d. doc_documentType d \<in> set (the documentTypes)) docs
      else docs)"

definition chunkMatches ::
  "platform \<Rightarrow> nat set \<Rightarrow> jsstring list \<Rightarrow> documentChunk \<Rightarrow> bool" where
  "chunkMatches P relevantDocIds queryTerms chunk =
     (if chunk_documentId chunk \<notin> relevantDocIds then False
      else let content = toLowerCase P (chunk_content chunk)
           in list_ex (\<lambda>term. includes_str content term) queryTerms)"

definition searchDocuments ::
  "platform \<Rightarrow> database option \<Rightarrow> nat \<Rightarrow> jsstring \<Rightarrow> jsstring list option \<Rightarrow> search_hit list" where
  "searchDocuments P db userId q documentTypes =
     (let docs = getDocumentsByUserId db userId;
          chunks = getChunksByUserDocuments db userId None;
          relevantDocIds = set (map doc_id (relevantDocs docs documentTypes));
          queryTerms = split_ws (toLowerCase P q);
          matchingChunks = take 10 (filter (chunkMatches P relevantDocIds queryTerms) chunks)
      in map (hitOf docs) matchingChunks)"

text \<open>
  The search as the specification reads it. A chunk is in a document of the user that
  passes the filter when some document of the store is owned by the user, has the
  chunk's document id, and has one of the requested types (every type, when none is
  requested). A term occurs in a content when the content is some text, the term, and
  some text.
\<close>

definition documentsOf :: "database option \<Rightarrow> document list" where
  "documentsOf db = (case db of None \<Rightarrow> [] | Some d \<Rightarrow> documents d)"


definition passesFilter :: "jsstring list option \<Rightarrow> document \<Rightarrow> bool" where
  "passesFilter documentTypes doc =
     (case documentTypes of None \<Rightarrow> True | Some ts \<Rightarrow> ts = [] \<or> doc_documentType doc \<in> set ts)"

definition inUserDocument ::
  "database option \<Rightarrow> nat \<Rightarrow> jsstring list option \<Rightarrow> documentChunk \<Rightarrow> bool" where
  "inUserDocument db userId documentTypes chunk \<longleftrightarrow>
     (\<exists>doc \<in> set (documentsOf db).
        doc_userId doc = userId \<and> doc_id doc = chunk_documentId chunk \<and>
        passesFilter documentTypes doc)"

definition isSubstring :: "jsstring \<Rightarrow> jsstring \<Rightarrow> bool" where
  "isSubstring t s \<longleftrightarrow> (\<exists>pre post. s = pre @ t @ post)"

definition someTermOccurs :: "platform \<Rightarrow> jsstring \<Rightarrow> documentChunk \<Rightarrow> bool" where
  "someTermOccurs P q chunk \<longleftrightarrow>
     (\<exists>t \<in> set (split_ws (toLowerCase P q)). isSubstring t (toLowerCase P (chunk_content chunk)))"

section \<open>A store for the examples\<close>

text \<open>
  User 4 owns document 3 and its chunk; user 5 owns document 7 and its chunk; user 6
  owns nothing.
\<close>

definition exampleStore :: database where
  "exampleStore =
     \<lparr> documents =
         [\<lparr> doc_id = 3, doc_userId = 4, doc_originalName = js ''Specs.pdf'',
            doc_documentType = js ''specifications'', doc_pageCount = Some 10,
            doc_createdAt = 100 \<rparr>,
          \<lparr> doc_id = 7, doc_userId = 5, doc_originalName = js ''Plans.pdf'',
            doc_documentType = js ''project_plans'', doc_pageCount = None,
            doc_createdAt = 200 \<rparr>],
       documentChunks =
         [\<lparr> chunk_id = 8, chunk_documentId = 3, chunk_userId = 4, chunk_chunkIndex = 0,
            chunk_content = js ''Concrete strength is 4000 psi'',
            chunk_pageNumber = Some 5, chunk_sectionTitle = Some (js ''Concrete'') \<rparr>,
          \<lparr> chunk_id = 9, chunk_documentId = 7, chunk_userId = 5, chunk_chunkIndex = 0,
            chunk_content = js ''Steel shall be Grade 60'',
            chunk_pageNumber = Some 3, chunk_sectionTitle = None \<rparr>] \<rparr>"

definition exampleChunk1 :: documentChunk where
  "exampleChunk1 =
     \<lparr> chunk_id = 8, chunk_documentId = 3, chunk_userId = 4, chunk_chunkIndex = 0,
       chunk_content = js ''Concrete strength is 4000 psi'',
       chunk_pageNumber = Some 5, chunk_sectionTitle = Some (js ''Concrete'') \<rparr>"

definition exampleHit1 :: search_hit where
  "exampleHit1 =
     \<lparr> hit_content = js ''Concrete strength is 4000 psi'',
       hit_citation =
         \<lparr> documentId = 3, documentName = js ''Specs.pdf'', pageNumber = Some 5,
           section' = Some (js ''Concrete''), excerpt = js ''Concrete strength is 4000 psi'' \<rparr> \<rparr>"

section \<open>The agent loop (runAgent)\<close>

text \<open>
  What the model returns to \<open>invokeLLM\<close>. The content of a message is a string, or a value
  that is not a string, given by its \<open>JSON.stringify\<close> text (\<open>null\<close>, an array of parts),
  or is \<open>undefined\<close>. A tool call has an id, the name of a function and the text of its
  arguments. The field \<open>choices\<close> lists the \<open>message\<close> of each choice, \<open>None\<close> for a choice
  with no message.
\<close>

datatype message_content = TextContent jsstring | JsonContent jsstring | NoContent

record tool_call =
  call_id :: jsstring
  function_name :: jsstring
  function_arguments :: jsstring

record assistant_message =
  msg_content :: message_content
  tool_calls :: "tool_call list option"

record llm_response =
  choices :: "assistant_message option list"

text \<open>\<open>response.choices[0]?.message\<close>\<close>

definition firstMessage :: "llm_response \<Rightarrow> assistant_message option" where
  "firstMessage response = (case choices response of [] \<Rightarrow> None | c # _ \<Rightarrow> c)"

text \<open>
  \<open>typeof content === 'string' ? content : JSON.stringify(content)\<close>; \<open>JSON.stringify\<close> of
  \<open>undefined\<close> is \<open>undefined\<close>, here \<open>None\<close>.
\<close>

definition contentText :: "message_content \<Rightarrow> jsstring option" where
  "contentText c =
     (case c of TextContent s \<Rightarrow> Some s | JsonContent j \<Rightarrow> Some j | NoContent \<Rightarrow> None)"

text \<open>The output object of each tool, and the entry of the audit list.\<close>

datatype tool_output =
  SearchOutput nat "search_hit list"
| CalculationOutput calc_output
| ScheduleOutput "jsstring option" nat "search_hit list"
| ReportOutput "jsstring option" nat "search_hit list"
| ConflictsOutput "jsstring list" "(jsstring \<times> search_hit list) list"
| SpecificationsOutput "jsstring option" nat "search_hit list"
| UnknownToolOutput jsstring

record toolCallResult =
  tool :: jsstring
  tool_input :: tool_input
  tool_output :: tool_output

record agentResponse =
  content :: "jsstring option"
  citations :: "citation list"
  toolCalls :: "toolCallResult list"

text \<open>\<open>xs.join(sep)\<close>\<close>

fun joinWith :: "jsstring \<Rightarrow> jsstring list \<Rightarrow> jsstring" where
  "joinWith sep [] = []"
| "joinWith sep [x] = x"
| "joinWith sep (x # y # ys) = x @ sep @ joinWith sep (y # ys)"

text \<open>
  One case of the \<open>switch\<close> over the tool name: the output of the tool, the citations it
  pushes, and the notifications it sends to the owner (title and content), unless it
  throws or does not end. A search with an \<open>undefined\<close> query throws at \<open>toLowerCase\<close>,
  \<open>report_type.replace\<close> throws on an \<open>undefined\<close> report type, and the loop over
  \<open>undefined\<close> topics throws.
\<close>

type_synonym notification = "jsstring \<times> jsstring"

definition hitCitations :: "search_hit list \<Rightarrow> citation list" where
  "hitCitations hits = map hit_citation hits"

definition runTool ::
  "platform \<Rightarrow> database option \<Rightarrow> nat \<Rightarrow> jsstring \<Rightarrow> tool_input \<Rightarrow>
   (tool_output \<times> citation list \<times> notification list) outcome" where
  "runTool P db userId toolName toolInput =
     (if toolName = js ''search_documents'' then
        (case query toolInput of
           None \<Rightarrow> Throws TypeError
         | Some q \<Rightarrow>
             let searchResult = searchDocuments P db userId q (document_types toolInput)
             in Returns (SearchOutput (length searchResult) searchResult,
                     hitCitations searchResult, []))
      else if toolName = js ''calculate_quantity'' then
        (case executeCalculation P toolInput of
           Throws e \<Rightarrow> Throws e
         | Diverges \<Rightarrow> Diverges
         | Returns out \<Rightarrow> Returns (CalculationOutput out, [], []))
      else if toolName = js ''analyze_schedule'' then
        (let scheduleSearch =
               searchDocuments P db userId
                 (js ''schedule '' @ interpolate (analysis_type toolInput) @
                  js '' timeline milestone'')
                 (Some [js ''cpm_schedule''])
         in Returns (ScheduleOutput (analysis_type toolInput) (length scheduleSearch) scheduleSearch,
                 hitCitations scheduleSearch, []))
      else if toolName = js ''generate_report'' then
        (case report_type toolInput of
           None \<Rightarrow> Throws TypeError
         | Some rt \<Rightarrow>
             let reportSearch =
                   searchDocuments P db userId (map (\<lambda>c. if c = 95 then 32 else c) rt) None
             in Returns (ReportOutput (report_type toolInput) (length reportSearch) reportSearch,
                     hitCitations reportSearch, []))
      else if toolName = js ''detect_conflicts'' then
        (case topics toolInput of
           None \<Rightarrow> Throws TypeError
         | Some ts \<Rightarrow>
             let conflictResults = map (\<lambda>topic. (topic, searchDocuments P db userId topic None)) ts
             in Returns (ConflictsOutput ts conflictResults,
                     concat (map (\<lambda>(topic, sources). hitCitations sources) conflictResults),
                     if list_ex (\<lambda>(topic, sources). length sources > 1) conflictResults
                     then [(js ''Specification Conflict Detected'',
                            js ''A user has identified potential specification conflicts in topics: '' @
                            joinWith (js '', '') ts)]
                     else []))
      else if toolName = js ''extract_specifications'' then
        (let specSearch =
               searchDocuments P db userId
                 (interpolate (spec_type toolInput) @ js '' specification '' @
                  joinWith (js '' '')
                    (case attributes toolInput of None \<Rightarrow> [] | Some as \<Rightarrow> as))
                 None
         in Returns (SpecificationsOutput (spec_type toolInput) (length specSearch) specSearch,
                 hitCitations specSearch, []))
      else Returns (UnknownToolOutput (js ''Unknown tool: '' @ toolName), [], []))"

text \<open>
  The state the loop over the tool calls builds: the citations and the audit list, and
  the notifications sent. \<open>jsonParse\<close> is \<open>JSON.parse\<close> on the arguments of a call, \<open>None\<close>
  when it throws. An exception leaves the loop and the agent.
\<close>

record agent_state =
  st_citations :: "citation list"
  st_toolCalls :: "toolCallResult list"
  st_notifications :: "notification list"

fun runToolCalls ::
  "platform \<Rightarrow> (jsstring \<Rightarrow> tool_input option) \<Rightarrow> database option \<Rightarrow> nat \<Rightarrow>
   tool_call list \<Rightarrow> agent_state \<Rightarrow> agent_state outcome" where
  "runToolCalls P jsonParse db userId [] st = Returns st"
| "runToolCalls P jsonParse db userId (toolCall # rest) st =
     (case jsonParse (function_arguments toolCall) of
        None \<Rightarrow> Throws SyntaxError
      | Some toolInput \<Rightarrow>
          (case runTool P db userId (function_name toolCall) toolInput of
             Throws e \<Rightarrow> Throws e
           | Diverges \<Rightarrow> Diverges
           | Returns (toolOutput, found, sent) \<Rightarrow>
               runToolCalls P jsonParse db userId rest
                 \<lparr> st_citations = st_citations st @ found,
                   st_toolCalls = st_toolCalls st @
                     [\<lparr> tool = function_name toolCall, tool_input = toolInput,
                        tool_output = toolOutput \<rparr>],
                   st_notifications = st_notifications st @ sent \<rparr>))"

text \<open>
  The deduplication. The key of a citation is \<open>c.documentId + c.excerpt\<close>, the digits of
  the document id followed by the excerpt. A \<open>Map\<close> keeps its keys in the order of their
  first \<open>set\<close>, and \<open>set\<close> on a key it has replaces the value in place.
\<close>

definition citationKey :: "citation \<Rightarrow> jsstring" where
  "citationKey c = decimal (documentId c) @ excerpt c"

fun mapSet :: "(jsstring \<times> citation) list \<Rightarrow> jsstring \<Rightarrow> citation \<Rightarrow> (jsstring \<times> citation) list" where
  "mapSet [] k v = [(k, v)]"
| "mapSet ((k', v') # m) k v = (if k' = k then (k', v) # m else (k', v') # mapSet m k v)"

definition dedupeCitations :: "citation list \<Rightarrow> citation list" where
  "dedupeCitations cs = map snd (foldl (\<lambda>citationMap c. mapSet citationMap (citationKey c) c) [] cs)"

definition fallbackContent :: jsstring where
  "fallbackContent =
     js ''I apologize, but I encountered an error processing your request. Please try again.''"

text \<open>
  runAgent. The two answers of the model are arguments: \<open>initialResponse\<close> is what the
  first call of \<open>invokeLLM\<close> returns and \<open>finalResponse\<close> what the second returns. The
  messages sent to the model (the system prompt, the history, the user message, the
  tool results) reach the agent's result only through these answers. A run that returns
  gives the response and the notifications sent.
\<close>

definition runAgent ::
  "platform \<Rightarrow> (jsstring \<Rightarrow> tool_input option) \<Rightarrow> database option \<Rightarrow>
   llm_response \<Rightarrow> llm_response \<Rightarrow> nat \<Rightarrow> (agentResponse \<times> notification list) outcome" where
  "runAgent P jsonParse db initialResponse finalResponse userId =
     (case firstMessage initialResponse of
        None \<Rightarrow> Returns (\<lparr> content = Some fallbackContent, citations = [], toolCalls = [] \<rparr>, [])
      | Some assistantMessage \<Rightarrow>
          if tool_calls assistantMessage \<noteq> None \<and> length (the (tool_calls assistantMessage)) > 0
          then
            (case runToolCalls P jsonParse db userId (the (tool_calls assistantMessage))
                    \<lparr> st_citations = [], st_toolCalls = [], st_notifications = [] \<rparr> of
               Throws e \<Rightarrow> Throws e
             | Diverges \<Rightarrow> Diverges
             | Returns st \<Rightarrow>
                 let finalContent =
                       (case firstMessage finalResponse of
                          None \<Rightarrow> NoContent
                        | Some m \<Rightarrow> msg_content m)
                 in Returns (\<lparr> content = contentText finalContent,
                           citations = dedupeCitations (st_citations st),
                           toolCalls = st_toolCalls st \<rparr>,
                         st_notifications st))
          else Returns (\<lparr> content = contentText (msg_content assistantMessage),
                      citations = [], toolCalls = [] \<rparr>, []))"

section \<open>Answers of the model for the examples\<close>

text \<open>
  The text of the arguments \<open>{"query":"psi"}\<close> (code unit 34 is the double quote), and a
  parser that is right on the two argument texts of the examples.
\<close>

definition quoted :: "jsstring \<Rightarrow> jsstring" where
  "quoted s = [34] @ s @ [34]"

definition queryPsiArguments :: jsstring where
  "queryPsiArguments = js ''{'' @ quoted (js ''query'') @ js '':'' @ quoted (js ''psi'') @ js ''}''"

definition exampleParse :: "jsstring \<Rightarrow> tool_input option" where
  "exampleParse s =
     (if s = js ''{}'' then Some noArguments
      else if s = queryPsiArguments then Some (noArguments\<lparr>query := Some (js ''psi'')\<rparr>)
      else None)"

text \<open>
  The first answer asks for one calculation, with the arguments \<open>{}\<close>; the second answer
  has no choice, so no message.
\<close>

definition calculateRequest :: llm_response where
  "calculateRequest =
     \<lparr> choices =
         [Some \<lparr> msg_content = JsonContent (js ''null''),
                 tool_calls = Some [\<lparr> call_id = js ''call_1'',
                                      function_name = js ''calculate_quantity'',
                                      function_arguments = js ''{}'' \<rparr>] \<rparr>] \<rparr>"

definition noMessage :: llm_response where
  "noMessage = \<lparr> choices = [] \<rparr>"

text \<open>
  The first answer asks for one search, for \<open>psi\<close>; the second answer is a text. In the
  store user 4 owns document 2, with the chunk \<open>10 psi\<close>, and document 21, with the chunk
  \<open>0 psi\<close>.
\<close>

definition searchRequest :: llm_response where
  "searchRequest =
     \<lparr> choices =
         [Some \<lparr> msg_content = JsonContent (js ''null''),
                 tool_calls = Some [\<lparr> call_id = js ''call_1'',
                                      function_name = js ''search_documents'',
                                      function_arguments = queryPsiArguments \<rparr>] \<rparr>] \<rparr>"

definition textAnswer :: llm_response where
  "textAnswer =
     \<lparr> choices = [Some \<lparr> msg_content = TextContent (js ''Two strengths are given.''),
                          tool_calls = None \<rparr>] \<rparr>"

definition twoDocumentStore :: database where
  "twoDocumentStore =
     \<lparr> documents =
         [\<lparr> doc_id = 2, doc_userId = 4, doc_originalName = js ''A.pdf'',
            doc_documentType = js ''specifications'', doc_pageCount = None,
            doc_createdAt = 100 \<rparr>,
          \<lparr> doc_id = 21, doc_userId = 4, doc_originalName = js ''B.pdf'',
            doc_documentType = js ''specifications'', doc_pageCount = None,
            doc_createdAt = 200 \<rparr>],
       documentChunks =
         [\<lparr> chunk_id = 8, chunk_documentId = 2, chunk_userId = 4, chunk_chunkIndex = 0,
            chunk_content = js ''10 psi'', chunk_pageNumber = None, chunk_sectionTitle = None \<rparr>,
          \<lparr> chunk_id = 9, chunk_documentId = 21, chunk_userId = 4, chunk_chunkIndex = 0,
            chunk_content = js ''0 psi'', chunk_pageNumber = None, chunk_sectionTitle = None \<rparr>] \<rparr>"

definition citationA :: citation where
  "citationA =
     \<lparr> documentId = 2, documentName = js ''A.pdf'', pageNumber = None, section' = None,
       excerpt = js ''10 psi'' \<rparr>"

definition citationB :: citation where
  "citationB =
     \<lparr> documentId = 21, documentName = js ''B.pdf'', pageNumber = None, section' = None,
       excerpt = js ''0 psi'' \<rparr>"

definition chunkA :: documentChunk where
  "chunkA =
     \<lparr> chunk_id = 8, chunk_documentId = 2, chunk_userId = 4, chunk_chunkIndex = 0,
       chunk_content = js ''10 psi'', chunk_pageNumber = None, chunk_sectionTitle = None \<rparr>"

definition chunkB :: documentChunk where
  "chunkB =
     \<lparr> chunk_id = 9, chunk_documentId = 21, chunk_userId = 4, chunk_chunkIndex = 0,
       chunk_content = js ''0 psi'', chunk_pageNumber = None, chunk_sectionTitle = None \<rparr>"

section \<open>Properties of the string operations\<close>

lemma js_eq_iff [simp]: "js a = js b \<longleftrightarrow> a = b"
  by (simp add: js_def inj_map_eq_map [OF inj_of_char])

lemma js_Nil [simp]: "js [] = []"
  by (simp add: js_def)

lemma js_eq_Nil [simp]: "js a = [] \<longleftrightarrow> a = []"
  by (simp add: js_def)

lemma occursAt_append: "occursAt (pre @ t @ post) t (length pre)"
  by (simp add: occursAt_def)

text \<open>\<open>includes\<close> finds exactly the contiguous substrings.\<close>

lemma includes_str_iff: "includes_str s t \<longleftrightarrow> (\<exists>pre post. s = pre @ t @ post)"
proof
  assume "includes_str s t"
  then obtain i where i: "occursAt s t i"
    by (auto simp: includes_str_def list_ex_iff)
  then have "s = take i s @ t @ drop (i + length t) s"
    by (metis append_take_drop_id occursAt_def drop_drop add.commute)
  then show "\<exists>pre post. s = pre @ t @ post" by blast
next
  assume "\<exists>pre post. s = pre @ t @ post"
  then obtain pre post where s: "s = pre @ t @ post" by blast
  have "occursAt s t (length pre)" unfolding s by (rule occursAt_append)
  moreover have "length pre \<in> set [0 ..< Suc (length s)]" by (simp add: s)
  ultimately show "includes_str s t"
    unfolding includes_str_def list_ex_iff by blast
qed

lemma includes_str_empty: "includes_str s []"
  unfolding includes_str_iff by (rule exI [of _ "[]"], rule exI [of _ s]) simp

section \<open>Properties of the chunker\<close>

lemma splitLoop_step:
  "start < int (length text) \<Longrightarrow>
   splitLoop text chunkSize overlap start chunks =
   splitLoop text chunkSize overlap (windowEnd text chunkSize start - overlap)
     (chunks @ [trim (slice text start (windowEnd text chunkSize start))])"
  by (subst splitLoop.simps) (simp add: Let_def)

lemma splitLoop_exit:
  "\<not> start < int (length text) \<Longrightarrow> splitLoop text chunkSize overlap start chunks = Some chunks"
  by (subst splitLoop.simps) simp

lemma findBreak_after_middle:
  assumes "\<forall>bp \<in> set bps. 1 \<le> length bp"
  shows "findBreak text start chunkSize e bps = e \<or>
         2 * start + chunkSize + 2 < 2 * findBreak text start chunkSize e bps"
  using assms by (induction bps) (auto simp: Let_def)

lemma windowEnd_cases:
  "windowEnd text chunkSize start = start + chunkSize \<or>
   2 * start + chunkSize + 2 < 2 * windowEnd text chunkSize start"
proof -
  have "\<forall>bp \<in> set breakPoints. 1 \<le> length bp"
    by (simp add: breakPoints_def)
  from findBreak_after_middle [OF this, of "text" start chunkSize "start + chunkSize"]
  show ?thesis by (auto simp: windowEnd_def Let_def)
qed

lemma windowEnd_progress:
  assumes "overlap < chunkSize" "overlap \<le> chunkSize div 2 + 1"
  shows "start < windowEnd text chunkSize start - overlap"
  using windowEnd_cases [of "text" chunkSize start] assms by presburger

lemma splitLoop_returns:
  assumes "overlap < chunkSize" "overlap \<le> chunkSize div 2 + 1"
  shows "\<exists>out. splitLoop text chunkSize overlap start chunks = Some out"
proof (induction "nat (int (length text) - start)" arbitrary: start chunks rule: less_induct)
  case less
  show ?case
  proof (cases "start < int (length text)")
    case False
    then show ?thesis by (simp add: splitLoop_exit)
  next
    case True
    let ?e = "windowEnd text chunkSize start"
    have "start < ?e - overlap" using assms by (rule windowEnd_progress)
    with True have "nat (int (length text) - (?e - overlap)) < nat (int (length text) - start)"
      by linarith
    from less [OF this] obtain out where
      "splitLoop text chunkSize overlap (?e - overlap) (chunks @ [trim (slice text start ?e)]) = Some out"
      by blast
    with True show ?thesis by (simp add: splitLoop_step)
  qed
qed

text \<open>A window whose successor starts where it starts itself is walked again and again.\<close>

lemma splitLoop_stuck:
  assumes "start < int (length text)" "windowEnd text chunkSize start - overlap = start"
  shows "splitLoop text chunkSize overlap start chunks = None"
proof -
  have stuck: "\<not> (t = text \<and> cs = chunkSize \<and> ov = overlap \<and> st = start)"
    if "splitLoop t cs ov st ch = Some out" for t cs ov st ch out
  proof (rule splitLoop.raw_induct [where P = "\<lambda>t cs ov st ch out.
      \<not> (t = text \<and> cs = chunkSize \<and> ov = overlap \<and> st = start)", OF _ that])
    fix loop t cs ov st ch out
    assume IH: "\<And>t cs ov st ch out. loop t cs ov st ch = Some out \<Longrightarrow>
        \<not> (t = text \<and> cs = chunkSize \<and> ov = overlap \<and> st = start)"
      and step: "(if st < int (length t)
          then let end = windowEnd t cs st
               in loop t cs ov (end - ov) (ch @ [trim (slice t st end)])
          else Some ch) = Some out"
    show "\<not> (t = text \<and> cs = chunkSize \<and> ov = overlap \<and> st = start)"
    proof
      assume eq: "t = text \<and> cs = chunkSize \<and> ov = overlap \<and> st = start"
      with step assms have "loop text chunkSize overlap start
          (ch @ [trim (slice text start (windowEnd text chunkSize start))]) = Some out"
        by (simp add: Let_def)
      from IH [OF this] show False by simp
    qed
  qed
  show ?thesis
  proof (cases "splitLoop text chunkSize overlap start chunks")
    case None
    then show ?thesis .
  next
    case (Some out)
    from stuck [OF this] show ?thesis by simp
  qed
qed

text \<open>Every chunk the loop pushes is the trimmed slice of a window of the walk.\<close>

lemma splitLoop_windows:
  assumes "splitLoop text chunkSize overlap start chunks = Some out"
    and "\<forall>c \<in> set chunks. isWindow text chunkSize c"
  shows "\<forall>c \<in> set out. isWindow text chunkSize c"
proof -
  have "(\<forall>c \<in> set ch. isWindow t cs c) \<longrightarrow> (\<forall>c \<in> set out. isWindow t cs c)"
    if "splitLoop t cs ov st ch = Some out" for t cs ov st ch out
  proof (rule splitLoop.raw_induct [where P = "\<lambda>t cs ov st ch out.
      (\<forall>c \<in> set ch. isWindow t cs c) \<longrightarrow> (\<forall>c \<in> set out. isWindow t cs c)", OF _ that])
    fix loop t cs ov st ch out
    assume IH: "\<And>t cs ov st ch out. loop t cs ov st ch = Some out \<Longrightarrow>
        (\<forall>c \<in> set ch. isWindow t cs c) \<longrightarrow> (\<forall>c \<in> set out. isWindow t cs c)"
      and step: "(if st < int (length t)
          then let end = windowEnd t cs st
               in loop t cs ov (end - ov) (ch @ [trim (slice t st end)])
          else Some ch) = Some out"
    show "(\<forall>c \<in> set ch. isWindow t cs c) \<longrightarrow> (\<forall>c \<in> set out. isWindow t cs c)"
    proof (cases "st < int (length t)")
      case False
      with step show ?thesis by simp
    next
      case True
      with step have "loop t cs ov (windowEnd t cs st - ov)
          (ch @ [trim (slice t st (windowEnd t cs st))]) = Some out"
        by (simp add: Let_def)
      from IH [OF this]
      have imp: "(\<forall>c \<in> set (ch @ [trim (slice t st (windowEnd t cs st))]). isWindow t cs c) \<longrightarrow>
          (\<forall>c \<in> set out. isWindow t cs c)" .
      from True have "isWindow t cs (trim (slice t st (windowEnd t cs st)))"
        unfolding isWindow_def by blast
      with imp show ?thesis by simp
    qed
  qed
  with assms show ?thesis by blast
qed

text \<open>A text that fits one window, with no white space at either end, is one chunk.\<close>

lemma windowEnd_last:
  "int (length text) \<le> start + chunkSize \<Longrightarrow> windowEnd text chunkSize start = start + chunkSize"
  by (simp add: windowEnd_def)

lemma slice_whole: "int (length s) \<le> e \<Longrightarrow> slice s 0 e = s"
  by (simp add: slice_def sliceIndex_def)

lemma trim_letters: "\<not> isWhiteSpace c \<Longrightarrow> trim (replicate n c) = replicate n c"
  by (simp add: trim_def)

lemma splitLoop_one_window:
  assumes "0 < n" "int n \<le> chunkSize - overlap" "0 \<le> overlap" "\<not> isWhiteSpace c"
  shows "splitLoop (replicate n c) chunkSize overlap 0 [] = Some [replicate n c]"
proof -
  let ?t = "replicate n c"
  from assms have e: "windowEnd ?t chunkSize 0 = chunkSize"
    by (simp add: windowEnd_last)
  from assms have s: "slice ?t 0 chunkSize = ?t"
    by (simp add: slice_whole)
  from assms have "splitLoop ?t chunkSize overlap 0 [] =
      splitLoop ?t chunkSize overlap (chunkSize - overlap) [?t]"
    by (simp add: splitLoop_step e s trim_letters)
  also from assms have "\<dots> = Some [?t]"
    by (simp add: splitLoop_exit)
  finally show ?thesis .
qed

text \<open>
  C8 (as the code has it). Whenever the walk over the windows ends, the chunker drops
  exactly the trimmed window slices of at most 50 characters: every chunk it returns is
  longer than 50 characters, every trimmed window slice longer than 50 characters is
  returned, in the order of the walk, and nothing else is.
\<close>

theorem splitIntoChunks_drops_short_chunks:
  assumes "splitLoop text chunkSize overlap 0 [] = Some windows"
  shows "\<exists>out. splitIntoChunks text chunkSize overlap = Some out \<and>
           out = filter (\<lambda>c. 50 < length c) windows \<and>
           (\<forall>c \<in> set out. 50 < length c) \<and>
           (\<forall>c \<in> set windows. 50 < length c \<longrightarrow> c \<in> set out) \<and>
           (\<forall>c \<in> set windows. isWindow text chunkSize c)"
proof -
  have "\<forall>c \<in> set windows. isWindow text chunkSize c"
    by (rule splitLoop_windows [OF assms]) simp
  with assms show ?thesis
    by (simp add: splitIntoChunks_def)
qed

theorem splitIntoChunks_drops_short_chunks_witness:
  "splitIntoChunks (replicate 51 97) CHUNK_SIZE CHUNK_OVERLAP = Some [replicate 51 97]"
proof -
  have "splitLoop (replicate 51 97) CHUNK_SIZE CHUNK_OVERLAP 0 [] = Some [replicate 51 97]"
    by (rule splitLoop_one_window) (simp_all add: CHUNK_SIZE_def CHUNK_OVERLAP_def isWhiteSpace_def)
  from splitIntoChunks_drops_short_chunks [OF this]
  show ?thesis by simp
qed

text \<open>
  The claim as the specification words it fails at 50 characters: a text of 50 letters is
  one trimmed window slice of length 50, and the chunker returns no chunk.
\<close>

theorem splitIntoChunks_drops_short_chunks_counterexample:
  "length (replicate 50 (97 :: nat)) = 50 \<and>
   splitLoop (replicate 50 97) CHUNK_SIZE CHUNK_OVERLAP 0 [] = Some [replicate 50 97] \<and>
   splitIntoChunks (replicate 50 97) CHUNK_SIZE CHUNK_OVERLAP = Some []"
proof -
  have "splitLoop (replicate 50 97) CHUNK_SIZE CHUNK_OVERLAP 0 [] = Some [replicate 50 97]"
    by (rule splitLoop_one_window) (simp_all add: CHUNK_SIZE_def CHUNK_OVERLAP_def isWhiteSpace_def)
  then show ?thesis
    by (simp add: splitIntoChunks_def)
qed

text \<open>
  C9 (as the code has it). For every text and every pair of parameters with
  \<open>size > overlap \<ge> 0\<close> and \<open>overlap \<le> size div 2 + 1\<close>, as the defaults 2000 and 200 are,
  splitIntoChunks returns: each iteration moves the start of the next window to
  \<open>end - overlap\<close>, which is greater than the start of the window it leaves.
\<close>

theorem splitIntoChunks_returns:
  assumes "0 \<le> overlap" and "overlap < chunkSize" and "overlap \<le> chunkSize div 2 + 1"
  shows "(\<exists>out. splitIntoChunks text chunkSize overlap = Some out) \<and>
         (\<forall>start. start < windowEnd text chunkSize start - overlap)"
proof
  from splitLoop_returns [OF assms(2,3)]
  obtain ws where "splitLoop text chunkSize overlap 0 [] = Some ws" by blast
  then show "\<exists>out. splitIntoChunks text chunkSize overlap = Some out"
    by (simp add: splitIntoChunks_def)
  show "\<forall>start. start < windowEnd text chunkSize start - overlap"
    using assms(2,3) by (simp add: windowEnd_progress)
qed

theorem splitIntoChunks_returns_witness:
  "(\<exists>out. splitIntoChunks (replicate 51 97) CHUNK_SIZE CHUNK_OVERLAP = Some out) \<and>
   (\<forall>start. start < windowEnd (replicate 51 97) CHUNK_SIZE start - CHUNK_OVERLAP)"
  by (rule splitIntoChunks_returns) (simp_all add: CHUNK_SIZE_def CHUNK_OVERLAP_def)

text \<open>
  The claim as the specification words it fails for an overlap above half the size. With
  size 10 and overlap 7, on six letters, a line feed and five letters, the first window
  ends after the line feed, at 7, the next window starts at 0 again, and the loop never
  ends.
\<close>

lemma windowEnd_line_feed: "windowEnd ([97, 97, 97, 97, 97, 97, 10, 97, 97, 97, 97, 97]) 10 0 = 7"
  by code_simp

theorem splitIntoChunks_returns_counterexample:
  "(0 :: int) \<le> 7 \<and> (7 :: int) < 10 \<and>
   splitIntoChunks ([97, 97, 97, 97, 97, 97, 10, 97, 97, 97, 97, 97]) 10 7 = None"
proof -
  have "splitLoop ([97, 97, 97, 97, 97, 97, 10, 97, 97, 97, 97, 97]) 10 7 0 [] = None"
    by (rule splitLoop_stuck) (simp_all add: windowEnd_line_feed)
  then show ?thesis
    by (simp add: splitIntoChunks_def)
qed

section \<open>Properties of JavaScript numbers\<close>

lemmas double_eval =
  decimalLiteral_def roundRatio_def roundAt_def normalise_def divideRound_def floorLog2_def
  bitLength.simps

text \<open>
  The bit length of a number from two bounds, the rounded quotient from the quotient,
  and what follows for a ratio with the denominator 1: a number of at least \<open>2^1024\<close>
  rounds to an infinity.
\<close>

lemma bitLength_bounds: "2 ^ k \<le> n \<Longrightarrow> n < 2 * 2 ^ k \<Longrightarrow> bitLength n = k + 1"
proof (induction k arbitrary: n)
  case 0
  then have "n = 1" by simp
  then show ?case by (simp add: bitLength.simps)
next
  case (Suc k)
  then have "2 ^ k \<le> n div 2" and "n div 2 < 2 * 2 ^ k" and "n \<noteq> 0"
    by auto
  with Suc.IH [of "n div 2"] show ?case
    by (subst bitLength.simps) simp
qed

lemma bitLength_one: "bitLength (Suc 0) = Suc 0"
  by (simp add: bitLength.simps)

lemma divideRound_quotient:
  assumes "q * d \<le> n" and "n < q * d + d"
  shows "divideRound n d =
     (if d < 2 * (n - q * d) \<or> (2 * (n - q * d) = d \<and> odd q) then q + 1 else q)"
proof -
  define r where "r = n - q * d"
  with assms have n: "n = q * d + r" and r: "r < d" by simp_all
  from r have "n div d = q" and "n mod d = r"
    by (simp_all add: n)
  then show ?thesis
    by (simp add: divideRound_def r_def)
qed

lemma divideRound_positive: "0 < d \<Longrightarrow> d \<le> n \<Longrightarrow> divideRound n d \<noteq> 0"
  by (simp add: divideRound_def div_greater_zero_iff)

lemma normalise_truthy: "m \<noteq> 0 \<Longrightarrow> truthyDouble (normalise s m e)"
  by (simp add: normalise_def truthyDouble_def)

lemma normalise_overflows: "971 < e \<Longrightarrow> normalise s m e = Infinity s"
  by (simp add: normalise_def)

lemma floorLog2_whole:
  assumes "2 ^ k \<le> n" and "n < 2 * 2 ^ k"
  shows "floorLog2 n 1 = int k"
proof -
  from assms have "bitLength n = k + 1"
    by (rule bitLength_bounds)
  with assms(1) show ?thesis
    by (simp add: floorLog2_def bitLength_one)
qed

lemma roundRatio_overflows:
  assumes "2 ^ k \<le> n" and "n < 2 * 2 ^ k" and "1024 \<le> k"
  shows "roundRatio s n 1 = Infinity s"
proof -
  have "0 < (2::nat) ^ k" by simp
  with assms(1) have "n \<noteq> 0" by linarith
  with assms(3) floorLog2_whole [OF assms(1,2)] show ?thesis
    by (simp add: roundRatio_def roundAt_def normalise_overflows)
qed

lemma roundRatio_whole:
  assumes "2 ^ k \<le> n" and "n < 2 * 2 ^ k" and "52 \<le> k"
    and "q * 2 ^ (k - 52) \<le> n" and "n < q * 2 ^ (k - 52) + 2 ^ (k - 52)"
  shows "roundRatio s n 1 =
     normalise s
       (if 2 ^ (k - 52) < 2 * (n - q * 2 ^ (k - 52)) \<or>
           (2 * (n - q * 2 ^ (k - 52)) = 2 ^ (k - 52) \<and> odd q) then q + 1 else q)
       (int k - 52)"
proof -
  have "0 < (2::nat) ^ k" by simp
  with assms(1) have "n \<noteq> 0" by linarith
  moreover from assms(3) have "nat (int k - 52) = k - 52" and "nat (52 - int k) = 0"
    by simp_all
  ultimately show ?thesis
    using assms(3) floorLog2_whole [OF assms(1,2)] divideRound_quotient [OF assms(4,5)]
    by (simp add: roundRatio_def roundAt_def)
qed

lemma decimalLiteral_truthy:
  assumes "0 < digits"
    and "10 ^ places * 2 ^ nat (max (floorLog2 digits (10 ^ places) - 52) (- 1074)) \<le>
         digits * 2 ^ nat (- max (floorLog2 digits (10 ^ places) - 52) (- 1074))"
  shows "truthyDouble (decimalLiteral digits places)"
  using assms
  by (simp add: decimalLiteral_def roundRatio_def roundAt_def normalise_truthy
      divideRound_positive)

text \<open>
  A product is rounded: \<open>0.1 * 0.2\<close> is \<open>0.020000000000000004\<close>, not \<open>0.02\<close>, and
  \<open>1e200 * 1e200\<close> is \<open>Infinity\<close>.
\<close>

lemma multiply_rounds:
  "multiply (decimalLiteral 1 1) (decimalLiteral 2 1) = decimalLiteral 20000000000000004 18"
  "multiply (decimalLiteral 1 1) (decimalLiteral 2 1) \<noteq> decimalLiteral 2 2"
  by (simp_all add: double_eval)

lemma literal_1e200: "decimalLiteral (10 ^ 200) 0 = Finite False 5883593420661338 612"
  using roundRatio_whole [of 664 "10 ^ 200" 5883593420661338 False]
  by (simp add: decimalLiteral_def normalise_def)

lemma multiply_overflows:
  "multiply (decimalLiteral (10 ^ 200) 0) (decimalLiteral (10 ^ 200) 0) = Infinity False"
proof -
  have "roundRatio False (5883593420661338 * 5883593420661338 * 2 ^ 1224) 1 = Infinity False"
    by (rule roundRatio_overflows [of 1328]) simp_all
  then show ?thesis
    unfolding literal_1e200 by simp
qed

lemma four_times_five: "multiply (decimalLiteral 4 0) (decimalLiteral 5 0) = decimalLiteral 20 0"
  by (simp add: double_eval)

lemma ten_feet: "multiply (decimalLiteral 10 0) (decimalLiteral 3048 4) = decimalLiteral 3048 3"
  by (simp add: double_eval)

lemma literal_3048: "decimalLiteral 3048 3 = Finite False 6863485832112636 (- 51)"
  by (simp add: double_eval)

lemma value_3048: "finiteValue (decimalLiteral 3048 3) = Some (6863485832112636 / 2 ^ 51)"
  by (simp add: literal_3048 finiteValue_def)

lemma zero_falsy: "\<not> truthyDouble (decimalLiteral 0 0)"
  by (simp add: double_eval truthyDouble_def)

lemma small_numbers_truthy:
  "truthyDouble (decimalLiteral 4 0)" "truthyDouble (decimalLiteral 5 0)"
  by (simp_all add: double_eval truthyDouble_def)

lemma exampleRuntime_numbers:
  "numberToString exampleRuntime (decimalLiteral 2 0) = js ''2''"
  "numberToString exampleRuntime (decimalLiteral 3 0) = js ''3''"
  "numberToString exampleRuntime (decimalLiteral 4 0) = js ''4''"
  "numberToString exampleRuntime (decimalLiteral 5 0) = js ''5''"
  "numberToString exampleRuntime (decimalLiteral 10 0) = js ''10''"
  "numberToString exampleRuntime (decimalLiteral 20 0) = js ''20''"
  by (simp_all add: exampleRuntime_def wholePart_def double_eval decimal.simps js_def)

lemma exampleRuntime_fixed: "toFixed4 exampleRuntime (decimalLiteral 3048 3) = js ''3.0480''"
proof -
  have "tenThousandths (decimalLiteral 3048 3) = 30480"
    by (simp add: literal_3048 tenThousandths_def)
  then show ?thesis
    by (simp add: exampleRuntime_def fixed4_def decimal.simps js_def)
qed

section \<open>Properties of the calculation engine\<close>

lemma customCase_never_throws: "customCase P vals f \<noteq> Throws e"
  by (simp add: customCase_def split: outcome.splits prod.splits)

lemma customTry_diverges:
  "customTry P (Some vs) f = Diverges \<longleftrightarrow>
     (case substituteValues P vs f of
        None \<Rightarrow> False
      | Some evalFormula \<Rightarrow>
          (case evalFunction P (functionSource evalFormula) of
             Diverges \<Rightarrow> True
           | Throws e \<Rightarrow> False
           | Returns (NumberValue x) \<Rightarrow> False
           | Returns (OtherValue w) \<Rightarrow> otherToString P w = Diverges))"
  by (auto simp: customTry_def resultToString_def
      split: option.splits outcome.splits calc_value.splits)

lemma customCase_diverges:
  "customCase P vals f = Diverges \<longleftrightarrow> truthyString f \<and> customTry P vals (the f) = Diverges"
  by (simp add: customCase_def split: outcome.splits prod.splits)

lemma switchCase_never_throws:
  assumes "calculation_type input = Some ct" and "values' input = Some vs"
  shows "switchCase P input \<noteq> Throws e"
  using assms customCase_never_throws [of P "Some vs" "formula input" e]
  by (simp add: switchCase_def withValues_def split: option.splits)

lemma switchCase_diverges:
  assumes "calculation_type input = Some ct" and "values' input = Some vs"
  shows "switchCase P input = Diverges \<longleftrightarrow> formulaDiverges P input"
proof (cases "ct = js ''custom''")
  case True
  with assms have "switchCase P input = customCase P (Some vs) (formula input)"
    by (simp add: switchCase_def)
  with assms True show ?thesis
    by (simp add: customCase_diverges customTry_diverges formulaDiverges_def)
next
  case False
  with assms have "switchCase P input \<noteq> Diverges"
    by (simp add: switchCase_def withValues_def split: option.splits)
  with assms False show ?thesis
    by (simp add: formulaDiverges_def)
qed

text \<open>
  C4 (as the code has it). For every well-typed input, that is a \<open>calculation_type\<close>
  string and a \<open>values\<close> object with numeric properties, whatever the optional \<open>formula\<close>,
  \<open>unit_from\<close> and \<open>unit_to\<close> are, executeCalculation throws nothing. It does not return
  exactly on the inputs of \<open>formulaDiverges\<close>: a custom calculation whose formula, or the
  conversion of its result to text, runs for ever. On every other input it returns an
  error object, or an object holding a result, an explanation, the calculation type and
  the input values it was given.
\<close>

theorem executeCalculation_never_throws:
  assumes "calculation_type input = Some ct" and "values' input = Some vs"
  shows "(\<forall>e. executeCalculation P input \<noteq> Throws e) \<and>
         (executeCalculation P input = Diverges \<longleftrightarrow> formulaDiverges P input) \<and>
         (\<not> formulaDiverges P input \<longrightarrow>
            (\<exists>msg. executeCalculation P input = Returns (CalcError msg)) \<or>
            (\<exists>result explanation.
               executeCalculation P input =
                 Returns (CalcSuccess result explanation (Some ct) (Some vs))))"
proof (intro conjI allI impI)
  fix e
  from switchCase_never_throws [OF assms]
  show "executeCalculation P input \<noteq> Throws e"
    by (simp add: executeCalculation_def split: outcome.splits calc_case.splits)
next
  have "executeCalculation P input = Diverges \<longleftrightarrow> switchCase P input = Diverges"
    by (simp add: executeCalculation_def split: outcome.splits calc_case.splits)
  with switchCase_diverges [OF assms]
  show "executeCalculation P input = Diverges \<longleftrightarrow> formulaDiverges P input"
    by simp
next
  assume "\<not> formulaDiverges P input"
  with switchCase_diverges [OF assms] have "switchCase P input \<noteq> Diverges"
    by simp
  with switchCase_never_throws [OF assms] obtain c where c: "switchCase P input = Returns c"
    by (cases "switchCase P input") simp_all
  show "(\<exists>msg. executeCalculation P input = Returns (CalcError msg)) \<or>
        (\<exists>result explanation.
           executeCalculation P input = Returns (CalcSuccess result explanation (Some ct) (Some vs)))"
    using assms c by (cases c) (simp_all add: executeCalculation_def)
qed

theorem executeCalculation_never_throws_witness:
  "(\<forall>e. executeCalculation exampleRuntime
       (noArguments\<lparr>calculation_type := Some (js ''custom''),
                    values' := Some [(js ''a'', decimalLiteral 2 0)],
                    formula := Some (js ''a + 1'')\<rparr>) \<noteq> Throws e) \<and>
   \<not> formulaDiverges exampleRuntime
       (noArguments\<lparr>calculation_type := Some (js ''custom''),
                    values' := Some [(js ''a'', decimalLiteral 2 0)],
                    formula := Some (js ''a + 1'')\<rparr>) \<and>
   executeCalculation exampleRuntime
       (noArguments\<lparr>calculation_type := Some (js ''custom''),
                    values' := Some [(js ''a'', decimalLiteral 2 0)],
                    formula := Some (js ''a + 1'')\<rparr>) =
     Returns (CalcSuccess (NumberValue (decimalLiteral 3 0)) (js ''Custom calculation: a + 1 = 3'')
                (Some (js ''custom'')) (Some [(js ''a'', decimalLiteral 2 0)]))"
proof -
  let ?input = "noArguments\<lparr>calculation_type := Some (js ''custom''),
      values' := Some [(js ''a'', decimalLiteral 2 0)], formula := Some (js ''a + 1'')\<rparr>"
  have "customTry exampleRuntime (Some [(js ''a'', decimalLiteral 2 0)]) (js ''a + 1'') =
      Returns (NumberValue (decimalLiteral 3 0), js ''Custom calculation: a + 1 = 3'')"
    by (simp add: customTry_def exampleRuntime_numbers)
       (simp add: exampleRuntime_def resultToString_def exampleRuntime_numbers [unfolded exampleRuntime_def, simplified]
          js_def)
  then have returns: "executeCalculation exampleRuntime ?input =
     Returns (CalcSuccess (NumberValue (decimalLiteral 3 0)) (js ''Custom calculation: a + 1 = 3'')
                (Some (js ''custom'')) (Some [(js ''a'', decimalLiteral 2 0)]))"
    by (simp add: executeCalculation_def switchCase_def customCase_def truthyString_def
        noArguments_def)
  from executeCalculation_never_throws [of ?input "js ''custom''"
      "[(js ''a'', decimalLiteral 2 0)]" exampleRuntime]
  have "(\<forall>e. executeCalculation exampleRuntime ?input \<noteq> Throws e) \<and>
        (executeCalculation exampleRuntime ?input = Diverges \<longleftrightarrow>
           formulaDiverges exampleRuntime ?input)"
    by (simp add: noArguments_def)
  with returns show ?thesis by simp
qed

text \<open>
  The claim as the specification words it fails for a custom formula whose evaluation
  does not end: on \<open>(function(){for(;;){}})()\<close> executeCalculation returns nothing.
\<close>

theorem executeCalculation_never_throws_counterexample:
  "executeCalculation loopingRuntime
     (noArguments\<lparr>calculation_type := Some (js ''custom''), values' := Some [],
                  formula := Some loopFormula\<rparr>) = Diverges"
  by (simp add: executeCalculation_def switchCase_def customCase_def customTry_def
      truthyString_def noArguments_def loopingRuntime_def loopFormula_def exampleRuntime_def)

lemma area_eval:
  assumes "calculation_type input = Some (js ''area'')" and "values' input = Some vs"
  shows "executeCalculation P input =
     (case areaCase P vs of ReturnError msg \<Rightarrow> Returns (CalcError msg)
      | Assigned result explanation \<Rightarrow>
          Returns (CalcSuccess result explanation (Some (js ''area'')) (Some vs)))"
  using assms by (simp add: executeCalculation_def switchCase_def withValues_def split: calc_case.splits)

lemma area_rectangle:
  assumes "calculation_type input = Some (js ''area'')" and "values' input = Some vs"
    and "map_of vs (js ''length'') = Some l" "truthyDouble l"
    and "map_of vs (js ''width'') = Some w" "truthyDouble w"
  shows "executeCalculation P input =
     Returns (CalcSuccess (NumberValue (multiply l w))
       (js ''Area = '' @ numberToString P l @ js '' '' @ times_sign @ js '' '' @
        numberToString P w @ js '' = '' @ numberToString P (multiply l w) @ js '' square units'')
       (Some (js ''area'')) (Some vs))"
  using assms(3-)
  by (simp add: area_eval [OF assms(1,2)] areaCase_def numberProp_def truthyNumber_def Let_def)

lemma area_circle:
  assumes "calculation_type input = Some (js ''area'')" and "values' input = Some vs"
    and "\<not> (truthyNumber (numberProp vs ''length'') \<and> truthyNumber (numberProp vs ''width''))"
    and "map_of vs (js ''radius'') = Some r" "truthyDouble r"
  shows "executeCalculation P input =
     Returns (CalcSuccess (NumberValue (multiply (multiply Math_PI r) r))
       (js ''Area = '' @ pi_sign @ js '' '' @ times_sign @ js '' '' @ numberToString P r @
        squared_sign @ js '' = '' @ toFixed4 P (multiply (multiply Math_PI r) r) @
        js '' square units'')
       (Some (js ''area'')) (Some vs))"
proof -
  from assms(3) have no: "(truthyNumber (numberProp vs ''length'') \<and>
      truthyNumber (numberProp vs ''width'')) = False"
    by simp
  from assms(4,5) have yes: "truthyNumber (numberProp vs ''radius'')"
    and r: "the (numberProp vs ''radius'') = r"
    by (simp_all add: numberProp_def truthyNumber_def)
  show ?thesis
    by (simp add: area_eval [OF assms(1,2)] areaCase_def Let_def no yes r)
qed

lemma area_missing:
  assumes "calculation_type input = Some (js ''area'')" and "values' input = Some vs"
    and "\<not> (truthyNumber (numberProp vs ''length'') \<and> truthyNumber (numberProp vs ''width''))"
    and "\<not> truthyNumber (numberProp vs ''radius'')"
  shows "executeCalculation P input =
     Returns (CalcError (js ''Missing required values for area calculation (length/width or radius)''))"
proof -
  from assms(3) have no: "(truthyNumber (numberProp vs ''length'') \<and>
      truthyNumber (numberProp vs ''width'')) = False"
    by simp
  from assms(4) have no': "truthyNumber (numberProp vs ''radius'') = False"
    by simp
  show ?thesis
    by (simp add: area_eval [OF assms(1,2)] areaCase_def Let_def no no')
qed

lemma includes_str_middle: "includes_str (a @ b @ c) b"
  unfolding includes_str_iff by blast

lemma area_explanation_includes:
  fixes P :: platform and l w p :: double
  defines "e \<equiv> js ''Area = '' @ numberToString P l @ js '' '' @ times_sign @ js '' '' @
        numberToString P w @ js '' = '' @ numberToString P p @ js '' square units''"
  shows "includes_str e (numberToString P l) \<and> includes_str e (numberToString P w) \<and>
         includes_str e (numberToString P p)"
proof -
  have "includes_str e (numberToString P l)"
    unfolding e_def by (rule includes_str_middle)
  moreover have "includes_str
      ((js ''Area = '' @ numberToString P l @ js '' '' @ times_sign @ js '' '') @
       numberToString P w @ (js '' = '' @ numberToString P p @ js '' square units''))
      (numberToString P w)"
    by (rule includes_str_middle)
  then have "includes_str e (numberToString P w)"
    by (simp add: e_def)
  moreover have "includes_str
      ((js ''Area = '' @ numberToString P l @ js '' '' @ times_sign @ js '' '' @
        numberToString P w @ js '' = '') @ numberToString P p @ js '' square units'')
      (numberToString P p)"
    by (rule includes_str_middle)
  then have "includes_str e (numberToString P p)"
    by (simp add: e_def)
  ultimately show ?thesis by blast
qed

text \<open>
  C5 (as the code has it). A property of \<open>values\<close> counts in the area calculation only
  when it is present and truthy, that is neither a zero nor \<open>NaN\<close>. When \<open>length\<close> and
  \<open>width\<close> both count, the result is the product \<open>length * width\<close> of JavaScript numbers;
  otherwise, when \<open>radius\<close> counts, the result is \<open>Math.PI * radius * radius\<close>; otherwise the
  engine returns the error object about missing required values. For
  \<open>{length: 4, width: 5}\<close> the result is 20 and the explanation contains the texts of 4,
  of 5 and of 20.
\<close>

theorem area_calculation:
  assumes "calculation_type input = Some (js ''area'')" and "values' input = Some vs"
  shows "(\<forall>l w. map_of vs (js ''length'') = Some l \<and> truthyDouble l \<and>
                map_of vs (js ''width'') = Some w \<and> truthyDouble w \<longrightarrow>
            (\<exists>explanation. executeCalculation P input =
               Returns (CalcSuccess (NumberValue (multiply l w)) explanation
                      (Some (js ''area'')) (Some vs)))) \<and>
         (\<forall>r. \<not> (truthyNumber (numberProp vs ''length'') \<and> truthyNumber (numberProp vs ''width'')) \<and>
              map_of vs (js ''radius'') = Some r \<and> truthyDouble r \<longrightarrow>
            (\<exists>explanation. executeCalculation P input =
               Returns (CalcSuccess (NumberValue (multiply (multiply Math_PI r) r)) explanation
                      (Some (js ''area'')) (Some vs)))) \<and>
         (\<not> (truthyNumber (numberProp vs ''length'') \<and> truthyNumber (numberProp vs ''width'')) \<and>
          \<not> truthyNumber (numberProp vs ''radius'') \<longrightarrow>
            executeCalculation P input =
              Returns (CalcError (js ''Missing required values for area calculation (length/width or radius)''))) \<and>
         (vs = [(js ''length'', decimalLiteral 4 0), (js ''width'', decimalLiteral 5 0)] \<longrightarrow>
            (\<exists>explanation. executeCalculation P input =
               Returns (CalcSuccess (NumberValue (decimalLiteral 20 0)) explanation
                      (Some (js ''area'')) (Some vs)) \<and>
              includes_str explanation (numberToString P (decimalLiteral 4 0)) \<and>
              includes_str explanation (numberToString P (decimalLiteral 5 0)) \<and>
              includes_str explanation (numberToString P (decimalLiteral 20 0))))"
proof (intro conjI allI impI)
  fix l w
  assume "map_of vs (js ''length'') = Some l \<and> truthyDouble l \<and>
          map_of vs (js ''width'') = Some w \<and> truthyDouble w"
  then show "\<exists>explanation. executeCalculation P input =
      Returns (CalcSuccess (NumberValue (multiply l w)) explanation (Some (js ''area'')) (Some vs))"
    using area_rectangle [OF assms, of l w P] by blast
next
  fix r
  assume "\<not> (truthyNumber (numberProp vs ''length'') \<and> truthyNumber (numberProp vs ''width'')) \<and>
          map_of vs (js ''radius'') = Some r \<and> truthyDouble r"
  then show "\<exists>explanation. executeCalculation P input =
      Returns (CalcSuccess (NumberValue (multiply (multiply Math_PI r) r)) explanation
        (Some (js ''area'')) (Some vs))"
    using area_circle [OF assms, of r P] by blast
next
  assume "\<not> (truthyNumber (numberProp vs ''length'') \<and> truthyNumber (numberProp vs ''width'')) \<and>
          \<not> truthyNumber (numberProp vs ''radius'')"
  then show "executeCalculation P input =
      Returns (CalcError (js ''Missing required values for area calculation (length/width or radius)''))"
    using area_missing [OF assms, of P] by blast
next
  assume vs: "vs = [(js ''length'', decimalLiteral 4 0), (js ''width'', decimalLiteral 5 0)]"
  have "executeCalculation P input =
     Returns (CalcSuccess (NumberValue (multiply (decimalLiteral 4 0) (decimalLiteral 5 0)))
       (js ''Area = '' @ numberToString P (decimalLiteral 4 0) @ js '' '' @ times_sign @ js '' '' @
        numberToString P (decimalLiteral 5 0) @ js '' = '' @
        numberToString P (multiply (decimalLiteral 4 0) (decimalLiteral 5 0)) @ js '' square units'')
       (Some (js ''area'')) (Some vs))"
    by (rule area_rectangle [OF assms]) (simp_all add: vs small_numbers_truthy)
  with area_explanation_includes [of P "decimalLiteral 4 0" "decimalLiteral 5 0" "decimalLiteral 20 0"]
  show "\<exists>explanation. executeCalculation P input =
      Returns (CalcSuccess (NumberValue (decimalLiteral 20 0)) explanation
        (Some (js ''area'')) (Some vs)) \<and>
      includes_str explanation (numberToString P (decimalLiteral 4 0)) \<and>
      includes_str explanation (numberToString P (decimalLiteral 5 0)) \<and>
      includes_str explanation (numberToString P (decimalLiteral 20 0))"
    by (simp add: four_times_five)
qed

theorem area_calculation_witness:
  "\<exists>explanation.
     executeCalculation exampleRuntime
       (noArguments\<lparr>calculation_type := Some (js ''area''),
                    values' := Some [(js ''length'', decimalLiteral 4 0),
                                     (js ''width'', decimalLiteral 5 0)]\<rparr>) =
       Returns (CalcSuccess (NumberValue (decimalLiteral 20 0)) explanation (Some (js ''area''))
              (Some [(js ''length'', decimalLiteral 4 0), (js ''width'', decimalLiteral 5 0)])) \<and>
     includes_str explanation (js ''4'') \<and> includes_str explanation (js ''5'') \<and>
     includes_str explanation (js ''20'')"
  using area_calculation [of "noArguments\<lparr>calculation_type := Some (js ''area''),
      values' := Some [(js ''length'', decimalLiteral 4 0), (js ''width'', decimalLiteral 5 0)]\<rparr>"
      "[(js ''length'', decimalLiteral 4 0), (js ''width'', decimalLiteral 5 0)]" exampleRuntime]
  by (simp add: noArguments_def exampleRuntime_numbers)

text \<open>
  The claim as the specification words it fails where a dimension is present and zero:
  with \<open>{length: 0, width: 5}\<close> both are present, and the engine returns the error object,
  not the product.
\<close>

theorem area_calculation_counterexample:
  "map_of [(js ''length'', decimalLiteral 0 0), (js ''width'', decimalLiteral 5 0)] (js ''length'') =
     Some (decimalLiteral 0 0) \<and>
   map_of [(js ''length'', decimalLiteral 0 0), (js ''width'', decimalLiteral 5 0)] (js ''width'') =
     Some (decimalLiteral 5 0) \<and>
   executeCalculation exampleRuntime
     (noArguments\<lparr>calculation_type := Some (js ''area''),
                  values' := Some [(js ''length'', decimalLiteral 0 0),
                                   (js ''width'', decimalLiteral 5 0)]\<rparr>) =
     Returns (CalcError (js ''Missing required values for area calculation (length/width or radius)''))"
  by (simp add: executeCalculation_def switchCase_def noArguments_def withValues_def
      areaCase_def numberProp_def truthyNumber_def zero_falsy js_def)

lemma truthy_entry:
  "\<forall>(k, f) \<in> set c. truthyDouble f \<Longrightarrow> map_of c key = Some x \<Longrightarrow> truthyDouble x"
  by (auto dest: map_of_SomeD)

lemma firstCategoryWith_truthy:
  assumes "factorsTruthy table" and "firstCategoryWith table key factor"
  shows "truthyDouble factor"
proof -
  from assms(2) obtain before name category rest where
    split: "table = before @ (name, category) # rest"
    and some: "map_of category key = Some factor"
    unfolding firstCategoryWith_def by blast
  from assms(1) split have "\<forall>(k, f) \<in> set category. truthyDouble f"
    by (simp add: factorsTruthy_def)
  from truthy_entry [OF this some] show ?thesis .
qed

lemma findFactor_first:
  assumes "factorsTruthy table" and "firstCategoryWith table key factor"
  shows "findFactor table key = Some factor"
  using assms
proof (induction table)
  case Nil
  then show ?case by (simp add: firstCategoryWith_def)
next
  case (Cons nc table)
  obtain n c where nc: "nc = (n, c)" by (cases nc)
  from Cons.prems(1) have nz: "\<forall>(k, f) \<in> set c. truthyDouble f" and nz': "factorsTruthy table"
    by (auto simp: factorsTruthy_def nc)
  from Cons.prems(2) obtain before name category rest where
    split: "nc # table = before @ (name, category) # rest"
    and none: "\<forall>(n, c) \<in> set before. map_of c key = None"
    and some: "map_of category key = Some factor"
    unfolding firstCategoryWith_def by blast
  show ?case
  proof (cases before)
    case Nil
    with split nc have "c = category" by simp
    with some nz truthy_entry [of c key factor] show ?thesis
      by (simp add: nc truthyNumber_def)
  next
    case (Cons b before')
    with split have b: "b = nc" and t: "table = before' @ (name, category) # rest" by simp_all
    from none Cons b nc have "map_of c key = None" by simp
    moreover from none Cons have "\<forall>(n, c) \<in> set before'. map_of c key = None" by simp
    with t some have "firstCategoryWith table key factor"
      unfolding firstCategoryWith_def by blast
    ultimately show ?thesis
      using Cons.IH [OF nz'] by (simp add: nc truthyNumber_def)
  qed
qed

lemma findFactor_none:
  "inNoCategory table key \<Longrightarrow> findFactor table key = None"
  by (induction table) (auto simp: inNoCategory_def truthyNumber_def)

lemma UNIT_CONVERSIONS_truthy: "factorsTruthy UNIT_CONVERSIONS"
  by (simp add: factorsTruthy_def UNIT_CONVERSIONS_def decimalLiteral_truthy floorLog2_def
      bitLength.simps)

lemma conversion_eval:
  assumes "calculation_type input = Some (js ''conversion'')"
    and "unit_from input = Some f" "f \<noteq> []" "unit_to input = Some t" "t \<noteq> []"
    and "values' input = Some vs" "map_of vs (js ''value'') = Some v"
  shows "executeCalculation P input =
     (case conversionCase P vs f t v of ReturnError msg \<Rightarrow> Returns (CalcError msg)
      | Assigned result explanation \<Rightarrow>
          Returns (CalcSuccess result explanation (Some (js ''conversion'')) (Some vs)))"
  using assms
  by (simp add: executeCalculation_def switchCase_def truthyString_def numberProp_def
      split: calc_case.splits)

lemma ft_to_m_first:
  "firstCategoryWith UNIT_CONVERSIONS (js ''ft'' @ js ''_to_'' @ js ''m'') (decimalLiteral 3048 4)"
  unfolding firstCategoryWith_def
  apply (rule exI [of _ "[]"])
  apply (simp add: UNIT_CONVERSIONS_def js_def)
  done

lemma near_3048: "\<bar>6863485832112636 / 2 ^ 51 - 3.048\<bar> \<le> (1 / 10 ^ 6 :: real)"
  by simp

text \<open>
  C6 (as the code has it). For a conversion request whose \<open>unit_from\<close> and \<open>unit_to\<close> are
  strings that are not empty and whose \<open>values\<close> has a \<open>value\<close>, the engine looks the key
  \<open>{from}_to_{to}\<close> up in the conversion table: the first category containing the key
  gives the factor and the result is the product \<open>value * factor\<close> of JavaScript numbers;
  for a key in no category the engine returns the error object naming the unsupported
  conversion. Converting 10 from \<open>ft\<close> to \<open>m\<close> gives the number \<open>3.048\<close>, which is within
  \<open>10^-6\<close> of 3.048.
\<close>

theorem unit_conversion:
  assumes "calculation_type input = Some (js ''conversion'')"
    and "unit_from input = Some f" "f \<noteq> []" "unit_to input = Some t" "t \<noteq> []"
    and "values' input = Some vs" "map_of vs (js ''value'') = Some v"
  shows "map fst UNIT_CONVERSIONS = [js ''length'', js ''area'', js ''volume'', js ''weight''] \<and>
         (\<forall>factor. firstCategoryWith UNIT_CONVERSIONS (f @ js ''_to_'' @ t) factor \<longrightarrow>
            (\<exists>explanation. executeCalculation P input =
               Returns (CalcSuccess (NumberValue (multiply v factor)) explanation
                      (Some (js ''conversion'')) (Some vs)))) \<and>
         (inNoCategory UNIT_CONVERSIONS (f @ js ''_to_'' @ t) \<longrightarrow>
            executeCalculation P input =
              Returns (CalcError (js ''Conversion from '' @ f @ js '' to '' @ t @ js '' not supported''))) \<and>
         (f = js ''ft'' \<and> t = js ''m'' \<and> v = decimalLiteral 10 0 \<longrightarrow>
            (\<exists>x explanation. executeCalculation P input =
               Returns (CalcSuccess (NumberValue (decimalLiteral 3048 3)) explanation
                      (Some (js ''conversion'')) (Some vs)) \<and>
               finiteValue (decimalLiteral 3048 3) = Some x \<and> \<bar>x - 3.048\<bar> \<le> 1 / 10 ^ 6))"
proof -
  note ev = conversion_eval [OF assms, of P]
  have 1: "\<exists>explanation. executeCalculation P input =
               Returns (CalcSuccess (NumberValue (multiply v factor)) explanation
                      (Some (js ''conversion'')) (Some vs))"
    if "firstCategoryWith UNIT_CONVERSIONS (f @ js ''_to_'' @ t) factor" for factor
  proof -
    from findFactor_first [OF UNIT_CONVERSIONS_truthy that]
    have ff: "findFactor UNIT_CONVERSIONS (f @ js ''_to_'' @ t) = Some factor" .
    moreover have "truthyDouble factor"
      using UNIT_CONVERSIONS_truthy that by (rule firstCategoryWith_truthy)
    ultimately show ?thesis
      by (simp add: ev conversionCase_def Let_def truthyNumber_def)
  qed
  have 2: "executeCalculation P input =
              Returns (CalcError (js ''Conversion from '' @ f @ js '' to '' @ t @ js '' not supported''))"
    if "inNoCategory UNIT_CONVERSIONS (f @ js ''_to_'' @ t)"
    using findFactor_none [OF that]
    by (simp add: ev conversionCase_def Let_def truthyNumber_def)
  have 3: "\<exists>x explanation. executeCalculation P input =
               Returns (CalcSuccess (NumberValue (decimalLiteral 3048 3)) explanation
                      (Some (js ''conversion'')) (Some vs)) \<and>
               finiteValue (decimalLiteral 3048 3) = Some x \<and> \<bar>x - 3.048\<bar> \<le> 1 / 10 ^ 6"
    if "f = js ''ft'' \<and> t = js ''m'' \<and> v = decimalLiteral 10 0"
  proof -
    from that ft_to_m_first
    have "firstCategoryWith UNIT_CONVERSIONS (f @ js ''_to_'' @ t) (decimalLiteral 3048 4)"
      by simp
    from 1 [OF this] that obtain explanation where
      "executeCalculation P input =
         Returns (CalcSuccess (NumberValue (decimalLiteral 3048 3)) explanation
                (Some (js ''conversion'')) (Some vs))"
      by (auto simp: ten_feet)
    with value_3048 near_3048 show ?thesis by blast
  qed
  have 0: "map fst UNIT_CONVERSIONS = [js ''length'', js ''area'', js ''volume'', js ''weight'']"
    by (simp add: UNIT_CONVERSIONS_def)
  from 0 1 2 3 show ?thesis by blast
qed

theorem unit_conversion_witness:
  "\<exists>x explanation.
     executeCalculation exampleRuntime
       (noArguments\<lparr>calculation_type := Some (js ''conversion''),
                    values' := Some [(js ''value'', decimalLiteral 10 0)],
                    unit_from := Some (js ''ft''), unit_to := Some (js ''m'')\<rparr>) =
       Returns (CalcSuccess (NumberValue (decimalLiteral 3048 3)) explanation
              (Some (js ''conversion'')) (Some [(js ''value'', decimalLiteral 10 0)])) \<and>
     finiteValue (decimalLiteral 3048 3) = Some x \<and> \<bar>x - 3.048\<bar> \<le> 1 / 10 ^ 6"
  using unit_conversion [of "noArguments\<lparr>calculation_type := Some (js ''conversion''),
      values' := Some [(js ''value'', decimalLiteral 10 0)],
      unit_from := Some (js ''ft''), unit_to := Some (js ''m'')\<rparr>"
      "js ''ft''" "js ''m''" "[(js ''value'', decimalLiteral 10 0)]" "decimalLiteral 10 0"
      exampleRuntime]
  by (simp add: noArguments_def)

text \<open>
  The claim as the specification words it fails where a unit is present and empty: with
  \<open>unit_from\<close> the empty string and \<open>unit_to\<close> \<open>m\<close> the key \<open>_to_m\<close> is in no category, and
  the engine returns the error object about missing values, which does not name the
  conversion.
\<close>

theorem unit_conversion_counterexample:
  "unit_from (noArguments\<lparr>calculation_type := Some (js ''conversion''),
                values' := Some [(js ''value'', decimalLiteral 10 0)],
                unit_from := Some [], unit_to := Some (js ''m'')\<rparr>) = Some [] \<and>
   inNoCategory UNIT_CONVERSIONS ([] @ js ''_to_'' @ js ''m'') \<and>
   executeCalculation exampleRuntime
     (noArguments\<lparr>calculation_type := Some (js ''conversion''),
                  values' := Some [(js ''value'', decimalLiteral 10 0)],
                  unit_from := Some [], unit_to := Some (js ''m'')\<rparr>) =
     Returns (CalcError (js ''Missing required values for conversion (value, unit_from, unit_to)''))"
  by (simp add: executeCalculation_def switchCase_def noArguments_def truthyString_def
      inNoCategory_def UNIT_CONVERSIONS_def js_def)

section \<open>Properties of the store\<close>

text \<open>
  When the caller owns no document with the id, deleteDocument removes no document and
  returns \<open>false\<close>, and has removed every chunk with that document id, whoever owns it.
\<close>

lemma deleteDocument_not_owner:
  assumes "\<forall>x \<in> set (documents d). \<not> (doc_id x = ident \<and> doc_userId x = userId)"
  shows "deleteDocument (Some d) ident userId =
     (Some (d\<lparr>documentChunks := filter (\<lambda>c. chunk_documentId c \<noteq> ident) (documentChunks d)\<rparr>),
      False)"
  using assms
  by (simp add: deleteDocument_def Let_def filter_empty_conv filter_id_conv)

text \<open>
  C3 fails on the code. In the example store document 7 and its chunk belong to user 5.
  The call \<open>deleteDocument(7, 4)\<close> by user 4 returns \<open>false\<close> and leaves both documents, but
  the chunk of user 5 is gone: only the chunk of document 3 remains.
\<close>

theorem deleteDocument_removes_foreign_chunks:
  "map chunk_userId (filter (\<lambda>c. chunk_documentId c = 7) (documentChunks exampleStore)) = [5] \<and>
   deleteDocument (Some exampleStore) 7 4 =
     (Some (exampleStore\<lparr>documentChunks := [exampleChunk1]\<rparr>), False)"
  by (simp add: deleteDocument_def exampleStore_def exampleChunk1_def Let_def)

section \<open>Properties of the retrieval search\<close>

lemma set_getDocumentsByUserId:
  "set (getDocumentsByUserId db userId) = {d \<in> set (documentsOf db). doc_userId d = userId}"
  by (auto simp: getDocumentsByUserId_def documentsOf_def split: option.splits)

lemma relevantDocs_iff:
  "d \<in> set (relevantDocs docs documentTypes) \<longleftrightarrow> d \<in> set docs \<and> passesFilter documentTypes d"
  by (cases documentTypes) (auto simp: relevantDocs_def passesFilter_def)

lemma relevantDocIds_iff:
  "chunk_documentId c \<in> set (map doc_id (relevantDocs (getDocumentsByUserId db userId) documentTypes))
   \<longleftrightarrow> inUserDocument db userId documentTypes c"
proof -
  have "chunk_documentId c \<in> set (map doc_id (relevantDocs (getDocumentsByUserId db userId) documentTypes))
    \<longleftrightarrow> (\<exists>d \<in> set (relevantDocs (getDocumentsByUserId db userId) documentTypes).
          chunk_documentId c = doc_id d)"
    by auto
  also have "\<dots> \<longleftrightarrow> (\<exists>d \<in> set (documentsOf db). doc_userId d = userId \<and>
      doc_id d = chunk_documentId c \<and> passesFilter documentTypes d)"
    by (simp add: Bex_def relevantDocs_iff set_getDocumentsByUserId) metis
  finally show ?thesis unfolding inUserDocument_def .
qed

lemma chunkMatches_iff:
  "chunkMatches P (set (map doc_id (relevantDocs (getDocumentsByUserId db userId) documentTypes)))
     (split_ws (toLowerCase P q)) c \<longleftrightarrow>
   inUserDocument db userId documentTypes c \<and> someTermOccurs P q c"
  unfolding chunkMatches_def relevantDocIds_iff
  by (simp add: someTermOccurs_def isSubstring_def list_ex_iff includes_str_iff Let_def)

lemma searchDocuments_eq:
  "searchDocuments P db userId q documentTypes =
     map (hitOf (getDocumentsByUserId db userId))
       (take 10 (filter (\<lambda>c. inUserDocument db userId documentTypes c \<and> someTermOccurs P q c)
          (getChunksByUserDocuments db userId None)))"
  unfolding searchDocuments_def Let_def chunkMatches_iff ..


text \<open>A query of white space only splits into empty terms, and the empty term occurs everywhere.\<close>

lemma split_ws_blank:
  assumes "\<forall>c \<in> set s. isWhiteSpace c"
  shows "split_ws s = (if s = [] then [[]] else [[], []])"
proof (cases s)
  case Nil
  then show ?thesis by (simp add: split_ws_def)
next
  case (Cons c cs)
  with assms have "isWhiteSpace c" and d: "dropWhile isWhiteSpace cs = []"
    by simp_all
  with Cons show ?thesis by (simp add: split_ws_def d del: dropWhile_eq_Nil_conv)
qed

lemma someTermOccurs_blank:
  assumes "\<forall>c \<in> set (toLowerCase P q). isWhiteSpace c"
  shows "someTermOccurs P q chunk"
proof -
  have "[] \<in> set (split_ws (toLowerCase P q))"
    by (simp add: split_ws_blank [OF assms])
  moreover have "isSubstring [] (toLowerCase P (chunk_content chunk))"
    unfolding isSubstring_def by (rule exI [of _ "[]"]) simp
  ultimately show ?thesis unfolding someTermOccurs_def by blast
qed

text \<open>The example store, read by user 4 and by user 6.\<close>

lemma exampleStore_chunks:
  "getChunksByUserDocuments (Some exampleStore) 4 None = [exampleChunk1]"
  "getChunksByUserDocuments (Some exampleStore) 6 None = []"
  by (simp_all add: getChunksByUserDocuments_def exampleStore_def exampleChunk1_def)

lemma exampleStore_hit:
  "hitOf (getDocumentsByUserId (Some exampleStore) 4) exampleChunk1 = exampleHit1"
  by (simp add: hitOf_def citationOf_def findDocument_def getDocumentsByUserId_def
      exampleStore_def exampleChunk1_def exampleHit1_def js_def)

lemma exampleStore_inUserDocument: "inUserDocument (Some exampleStore) 4 None exampleChunk1"
  by (simp add: inUserDocument_def documentsOf_def exampleStore_def passesFilter_def
      exampleChunk1_def)






text \<open>
  C10. For a query that is empty or white space only, which lower-casing leaves as it
  is, the split gives the empty string as a term, and the search returns the hits of
  the first ten, at most, of the user's chunks that are in a document of the user
  passing the filter: the query matches every such chunk.
\<close>

theorem searchDocuments_blank_query:
  assumes "\<forall>c \<in> set q. isWhiteSpace c" and "toLowerCase P q = q"
  shows "[] \<in> set (split_ws (toLowerCase P q)) \<and>
         searchDocuments P db userId q documentTypes =
           map (hitOf (getDocumentsByUserId db userId))
             (take 10 (filter (inUserDocument db userId documentTypes)
                (getChunksByUserDocuments db userId None)))"
proof
  from assms have blank: "\<forall>c \<in> set (toLowerCase P q). isWhiteSpace c"
    by simp
  show "[] \<in> set (split_ws (toLowerCase P q))"
    by (simp add: split_ws_blank [OF blank])
  show "searchDocuments P db userId q documentTypes =
      map (hitOf (getDocumentsByUserId db userId))
        (take 10 (filter (inUserDocument db userId documentTypes)
           (getChunksByUserDocuments db userId None)))"
    by (simp add: searchDocuments_eq someTermOccurs_blank [OF blank])
qed

theorem searchDocuments_blank_query_witness:
  "[] \<in> set (split_ws (toLowerCase exampleRuntime [32])) \<and>
   searchDocuments exampleRuntime (Some exampleStore) 4 [32] None = [exampleHit1]"
  using searchDocuments_blank_query [of "[32]" exampleRuntime "Some exampleStore" 4 None]
  by (simp add: exampleRuntime_def isWhiteSpace_def asciiLower_def exampleStore_chunks
      exampleStore_inUserDocument exampleStore_hit [unfolded exampleRuntime_def])

section \<open>Properties of the agent loop\<close>

text \<open>When the first answer has no message the agent returns the fallback.\<close>

lemma runAgent_no_first_message:
  assumes "firstMessage initialResponse = None"
  shows "runAgent P jsonParse db initialResponse finalResponse userId =
           Returns (\<lparr> content = Some fallbackContent, citations = [], toolCalls = [] \<rparr>, [])"
    and "fallbackContent \<noteq> []"
  using assms by (simp_all add: runAgent_def fallbackContent_def)

text \<open>
  When the tool round is done and the second answer has no message, the agent returns
  what the round collected, with an \<open>undefined\<close> content.
\<close>

lemma runAgent_no_final_message:
  assumes "firstMessage initialResponse = Some m" and "tool_calls m = Some calls" and "calls \<noteq> []"
    and "runToolCalls P jsonParse db userId calls
           \<lparr> st_citations = [], st_toolCalls = [], st_notifications = [] \<rparr> = Returns st"
    and "firstMessage finalResponse = None"
  shows "runAgent P jsonParse db initialResponse finalResponse userId =
           Returns (\<lparr> content = None, citations = dedupeCitations (st_citations st),
                  toolCalls = st_toolCalls st \<rparr>, st_notifications st)"
  using assms by (simp add: runAgent_def contentText_def)

text \<open>
  C1 fails on the code. The first answer asks for a calculation and the second answer has
  no message: the agent returns no fallback, but an \<open>undefined\<close> content and the audit
  list of the tool round.
\<close>

theorem runAgent_no_fallback_after_tools:
  "firstMessage noMessage = None \<and>
   runAgent exampleRuntime exampleParse (Some exampleStore) calculateRequest noMessage 4 =
     Returns (\<lparr> content = None, citations = [],
            toolCalls = [\<lparr> tool = js ''calculate_quantity'', tool_input = noArguments,
                            tool_output = CalculationOutput
                              (CalcError (js ''Unknown calculation type: undefined'')) \<rparr>] \<rparr>, [])"
  by (simp add: runAgent_def firstMessage_def calculateRequest_def noMessage_def exampleParse_def
      runTool_def executeCalculation_def switchCase_def noArguments_def interpolate_def
      contentText_def dedupeCitations_def js_def)

text \<open>
  The deduplication keeps one citation for each key, and two citations with the same
  document id and the same excerpt have the same key.
\<close>

lemma mapSet_keys: "map fst (mapSet m k v) = (if k \<in> set (map fst m) then map fst m else map fst m @ [k])"
proof (induction m)
  case Nil
  show ?case by simp
next
  case (Cons p m)
  obtain k' v' where p: "p = (k', v')" by (cases p)
  show ?case
  proof (cases "k' = k")
    case True
    then show ?thesis by (simp add: p)
  next
    case False
    with Cons show ?thesis by (simp add: p)
  qed
qed

lemma mapSet_values: "set (map snd (mapSet m k v)) \<subseteq> insert v (set (map snd m))"
proof (induction m)
  case Nil
  show ?case by simp
next
  case (Cons p m)
  obtain k' v' where p: "p = (k', v')" by (cases p)
  from Cons show ?case by (cases "k' = k") (auto simp: p)
qed

lemma mapSet_keyed:
  assumes "\<forall>(k', v') \<in> set m. k' = key v'"
  shows "\<forall>(k', v') \<in> set (mapSet m (key v) v). k' = key v'"
  using assms
proof (induction m)
  case Nil
  show ?case by simp
next
  case (Cons p m)
  obtain k' v' where p: "p = (k', v')" by (cases p)
  from Cons.prems have kv: "k' = key v'" and rest: "\<forall>(k', v') \<in> set m. k' = key v'"
    by (simp_all add: p)
  from Cons.IH [OF rest] kv rest show ?case
    by (cases "k' = key v") (simp_all add: p)
qed

lemma foldl_mapSet:
  assumes "distinct (map fst m)" and "\<forall>(k, v) \<in> set m. k = citationKey v"
  shows "distinct (map fst (foldl (\<lambda>citationMap c. mapSet citationMap (citationKey c) c) m cs)) \<and>
         (\<forall>(k, v) \<in> set (foldl (\<lambda>citationMap c. mapSet citationMap (citationKey c) c) m cs).
            k = citationKey v) \<and>
         set (map fst (foldl (\<lambda>citationMap c. mapSet citationMap (citationKey c) c) m cs)) =
           set (map fst m) \<union> citationKey ` set cs \<and>
         set (map snd (foldl (\<lambda>citationMap c. mapSet citationMap (citationKey c) c) m cs)) \<subseteq>
           set (map snd m) \<union> set cs"
  using assms
proof (induction cs arbitrary: m)
  case Nil
  then show ?case by simp
next
  case (Cons c cs)
  let ?m = "mapSet m (citationKey c) c"
  let ?r = "foldl (\<lambda>citationMap c. mapSet citationMap (citationKey c) c) ?m cs"
  from Cons.prems(1) have d: "distinct (map fst ?m)"
    by (simp add: mapSet_keys)
  from Cons.prems(2) have k: "\<forall>(k, v) \<in> set ?m. k = citationKey v"
    by (rule mapSet_keyed)
  have keys: "set (map fst ?m) = insert (citationKey c) (set (map fst m))"
    by (simp add: mapSet_keys insert_absorb)
  have vals: "set (map snd ?m) \<subseteq> insert c (set (map snd m))"
    by (rule mapSet_values)
  from Cons.IH [OF d k]
  have 1: "distinct (map fst ?r)" and 2: "\<forall>(k, v) \<in> set ?r. k = citationKey v"
    and 3: "set (map fst ?r) = set (map fst ?m) \<union> citationKey ` set cs"
    and 4: "set (map snd ?r) \<subseteq> set (map snd ?m) \<union> set cs"
    by (blast+)
  from 3 keys have keys': "set (map fst ?r) = set (map fst m) \<union> citationKey ` set (c # cs)"
    by auto
  from 4 vals have vals': "set (map snd ?r) \<subseteq> set (map snd m) \<union> set (c # cs)"
    by auto
  from 1 2 keys' vals' show ?case by simp
qed

lemma keyed_map_fst:
  "\<forall>(k, v) \<in> set m. k = key v \<Longrightarrow> map fst m = map key (map snd m)"
  by (induction m) auto

lemma dedupeCitations_keys:
  "distinct (map citationKey (dedupeCitations cs)) \<and>
   citationKey ` set (dedupeCitations cs) = citationKey ` set cs \<and>
   set (dedupeCitations cs) \<subseteq> set cs"
proof -
  let ?m = "foldl (\<lambda>citationMap c. mapSet citationMap (citationKey c) c) [] cs"
  from foldl_mapSet [of "[]" cs]
  have d: "distinct (map fst ?m)" and k: "\<forall>(k, v) \<in> set ?m. k = citationKey v"
    and s: "set (map fst ?m) = citationKey ` set cs" and v: "set (map snd ?m) \<subseteq> set cs"
    by simp_all
  from k have eq: "map fst ?m = map citationKey (dedupeCitations cs)"
    unfolding dedupeCitations_def by (rule keyed_map_fst)
  from d eq have "distinct (map citationKey (dedupeCitations cs))" by simp
  moreover from s eq have "citationKey ` set (dedupeCitations cs) = citationKey ` set cs"
    by (metis list.set_map)
  moreover from v have "set (dedupeCitations cs) \<subseteq> set cs"
    by (simp add: dedupeCitations_def)
  ultimately show ?thesis by blast
qed

lemma citationKey_same_pair:
  "documentId a = documentId b \<Longrightarrow> excerpt a = excerpt b \<Longrightarrow> citationKey a = citationKey b"
  by (simp add: citationKey_def)

text \<open>The run of the example: the search for \<open>psi\<close> in the store of two documents.\<close>

lemma twoDocumentStore_chunks:
  "getChunksByUserDocuments (Some twoDocumentStore) 4 None = [chunkA, chunkB]"
  by (simp add: getChunksByUserDocuments_def twoDocumentStore_def chunkA_def chunkB_def)

lemma isSubstring_middle: "isSubstring t (pre @ t @ post)"
  unfolding isSubstring_def by blast

lemma psi_terms: "split_ws (toLowerCase exampleRuntime (js ''psi'')) = [js ''psi'']"
  by (simp add: exampleRuntime_def js_def asciiLower_def split_ws_def isWhiteSpace_def)

lemma psi_occurs:
  "someTermOccurs exampleRuntime (js ''psi'') chunkA"
  "someTermOccurs exampleRuntime (js ''psi'') chunkB"
proof -
  have "toLowerCase exampleRuntime (chunk_content chunkA) = js ''10 '' @ js ''psi'' @ []"
    by (simp add: exampleRuntime_def js_def asciiLower_def chunkA_def)
  then show "someTermOccurs exampleRuntime (js ''psi'') chunkA"
    unfolding someTermOccurs_def psi_terms by (simp add: isSubstring_middle del: append_Nil2)
  have "toLowerCase exampleRuntime (chunk_content chunkB) = js ''0 '' @ js ''psi'' @ []"
    by (simp add: exampleRuntime_def js_def asciiLower_def chunkB_def)
  then show "someTermOccurs exampleRuntime (js ''psi'') chunkB"
    unfolding someTermOccurs_def psi_terms by (simp add: isSubstring_middle del: append_Nil2)
qed

lemma twoDocumentStore_inUserDocument:
  "inUserDocument (Some twoDocumentStore) 4 None chunkA"
  "inUserDocument (Some twoDocumentStore) 4 None chunkB"
  by (simp_all add: inUserDocument_def documentsOf_def twoDocumentStore_def passesFilter_def
      chunkA_def chunkB_def)

lemma twoDocumentStore_hits:
  "hitOf (getDocumentsByUserId (Some twoDocumentStore) 4) chunkA =
     \<lparr> hit_content = js ''10 psi'', hit_citation = citationA \<rparr>"
  "hitOf (getDocumentsByUserId (Some twoDocumentStore) 4) chunkB =
     \<lparr> hit_content = js ''0 psi'', hit_citation = citationB \<rparr>"
  by (simp_all add: hitOf_def citationOf_def findDocument_def getDocumentsByUserId_def
      twoDocumentStore_def chunkA_def chunkB_def citationA_def citationB_def js_def)

lemma twoDocumentStore_search:
  "searchDocuments exampleRuntime (Some twoDocumentStore) 4 (js ''psi'') None =
     [\<lparr> hit_content = js ''10 psi'', hit_citation = citationA \<rparr>,
      \<lparr> hit_content = js ''0 psi'', hit_citation = citationB \<rparr>]"
  by (simp add: searchDocuments_eq twoDocumentStore_chunks psi_occurs
      twoDocumentStore_inUserDocument twoDocumentStore_hits)

lemma citationKey_collision:
  "citationKey citationA = js ''210 psi''" "citationKey citationB = js ''210 psi''"
  by (simp_all add: citationKey_def citationA_def citationB_def decimal.simps js_def)

lemma exampleParse_query:
  "exampleParse queryPsiArguments = Some (noArguments\<lparr>query := Some (js ''psi'')\<rparr>)"
  by (simp add: exampleParse_def queryPsiArguments_def quoted_def js_def)

text \<open>
  C2 fails on the code. The citation of document 2 with the excerpt \<open>10 psi\<close> and the
  citation of document 21 with the excerpt \<open>0 psi\<close> differ in the document id and in the
  excerpt, and both have the key \<open>210 psi\<close>: the search finds both chunks and the agent
  returns one citation.
\<close>

theorem runAgent_merges_distinct_citations:
  "documentId citationA \<noteq> documentId citationB \<and> excerpt citationA \<noteq> excerpt citationB \<and>
   dedupeCitations [citationA, citationB] = [citationB] \<and>
   runAgent exampleRuntime exampleParse (Some twoDocumentStore) searchRequest textAnswer 4 =
     Returns (\<lparr> content = Some (js ''Two strengths are given.''), citations = [citationB],
            toolCalls = [\<lparr> tool = js ''search_documents'',
                            tool_input = noArguments\<lparr>query := Some (js ''psi'')\<rparr>,
                            tool_output = SearchOutput 2
                              [\<lparr> hit_content = js ''10 psi'', hit_citation = citationA \<rparr>,
                               \<lparr> hit_content = js ''0 psi'', hit_citation = citationB \<rparr>] \<rparr>] \<rparr>,
          [])"
proof -
  have d: "dedupeCitations [citationA, citationB] = [citationB]"
    by (simp add: dedupeCitations_def citationKey_collision)
  have "documentId citationA \<noteq> documentId citationB" "excerpt citationA \<noteq> excerpt citationB"
    by (simp_all add: citationA_def citationB_def js_def)
  moreover have "runAgent exampleRuntime exampleParse (Some twoDocumentStore) searchRequest textAnswer 4 =
     Returns (\<lparr> content = Some (js ''Two strengths are given.''), citations = [citationB],
            toolCalls = [\<lparr> tool = js ''search_documents'',
                            tool_input = noArguments\<lparr>query := Some (js ''psi'')\<rparr>,
                            tool_output = SearchOutput 2
                              [\<lparr> hit_content = js ''10 psi'', hit_citation = citationA \<rparr>,
                               \<lparr> hit_content = js ''0 psi'', hit_citation = citationB \<rparr>] \<rparr>] \<rparr>,
          [])"
    by (simp add: runAgent_def firstMessage_def searchRequest_def textAnswer_def
        exampleParse_query runTool_def twoDocumentStore_search hitCitations_def d contentText_def
        noArguments_def)
  ultimately show ?thesis using d by simp
qed

end
